theory Spec2Isabelle
  imports Main "HOL-Library.Sublist"
begin

section \<open>The login selector page of the login migration wizard\<close>

text \<open>
  A shallow embedding of \<^verbatim>\<open>extensions/sql-migration/src/wizard/loginSelectorPage.ts\<close>.
  The page object, the wizard it belongs to, its widgets and the shared migration state are
  one record that every method takes and returns. An \<^verbatim>\<open>await\<close> is sequential
  composition. The collaborators that live in other modules (the two login queries, the
  status image and message helpers, the \<^verbatim>\<open>selectedWindowsLogins\<close> getter) and
  the \<^verbatim>\<open>toLowerCase\<close> of the platform are parameters, and every call that leaves
  the page (a query, telemetry, the validation dialog) is appended to a log.
\<close>

subsection \<open>JavaScript strings\<close>

text \<open>
  A string is the sequence of its code units. \<^verbatim>\<open>String.prototype.toLowerCase\<close> is
  a function of the platform and not of the page: it is the parameter
  \<open>js_toLowerCase\<close> of the collaborators below, and nothing is assumed about it.
\<close>

fun startsWith :: "string \<Rightarrow> string \<Rightarrow> bool" where
  "startsWith s [] = True"
| "startsWith [] (c # cs) = False"
| "startsWith (d # ds) (c # cs) = (d = c \<and> startsWith ds cs)"

text \<open>
  \<^verbatim>\<open>String.prototype.indexOf\<close>: the position of the first occurrence of
  \<open>search\<close>, or -1 when there is none.
\<close>

fun indexOfFrom :: "string \<Rightarrow> string \<Rightarrow> int \<Rightarrow> int" where
  "indexOfFrom [] search i = (if search = [] then i else - 1)"
| "indexOfFrom (c # cs) search i =
     (if startsWith (c # cs) search then i else indexOfFrom cs search (i + 1))"

definition indexOf :: "string \<Rightarrow> string \<Rightarrow> int" where
  "indexOf s search = indexOfFrom s search 0"

text \<open>A string is truthy when it is neither \<^verbatim>\<open>undefined\<close> nor empty.\<close>

definition truthy :: "string option \<Rightarrow> bool" where
  "truthy v = (case v of None \<Rightarrow> False | Some s \<Rightarrow> s \<noteq> [])"

subsection \<open>Localised strings\<close>

text \<open>
  The members of \<^verbatim>\<open>constants/strings\<close> that the page uses, by name; a member that is
  a function carries its arguments. \<open>Literal\<close> is a string written in the page itself.
\<close>

datatype loc =
    Literal string
  | WIZARD_CANCEL_REASON_CONTINUE_WITH_MIGRATION_LATER
  | WIZARD_CANCEL_REASON_NEED_TO_REVIEW_LOGIN_SELECTION
  | SELECT_LOGIN_AND_RUN_VALIDATION_TO_CONTINUE
  | ENTER_ENTRA_ID
  | ENTRA_DOMAIN_NOT_VALIDATED
  | VALIDATE_ALL_LOGINS
  | LOGIN_MIGRATION_REFRESH_SOURCE_LOGIN_DATA_FAILED
  | LOGIN_MIGRATION_REFRESH_TARGET_LOGIN_DATA_FAILED
  | LOGIN_MIGRATIONS_GET_LOGINS_ERROR_TITLE string
  | LOGIN_MIGRATIONS_GET_LOGINS_ERROR string
  | LOGIN_MIGRATION_REFRESHING_LOGIN_DATA
  | LOGIN_MIGRATION_REFRESH_LOGIN_DATA_SUCCESSFUL nat nat
  | LOGINS_SELECTED nat nat
  | LOGIN_MIGRATION_VALIDATION_MESSAGE_SUCCESS
  | VALIDATION_MESSAGE_CANCELED_ERRORS string
  | VALIDATE_LOGIN_MIGRATION_VALIDATION_COMPLETED_ERRORS string
  | VALIDATION_MESSAGE_CANCELED
  | VALIDATION_MESSAGE_NOT_RUN
  | SELECT_LOGIN_TO_CONTINUE
  | VALIDATION_DIALOG_TITLE
  | LOGIN_MIGRATE_BUTTON_TEXT
  | NEXT_LABEL

subsection \<open>Data model\<close>

text \<open>
  \<^verbatim>\<open>LoginTableInfo\<close> declares four strings. The type parameter is the type of the
  \<open>status\<close> slot: \<open>string\<close> for the logins that the query API delivers, and
  \<open>string option\<close> for the objects that \<^verbatim>\<open>selectedLogins\<close> builds from table cells
  typed \<^verbatim>\<open>any\<close>, where \<open>None\<close> is \<^verbatim>\<open>undefined\<close>.
\<close>

record 's LoginTableInfo =
  loginName :: string
  loginType :: string
  defaultDatabaseName :: string
  status :: 's

type_synonym SourceLogin = "string LoginTableInfo"
type_synonym SelectedLogin = "string option LoginTableInfo"

record HyperlinkColumnCellValue =
  icon :: string
  title :: string

text \<open>
  A row of the non-system login table is the six-element array that
  \<^verbatim>\<open>_loadLoginList\<close> builds; \<open>c0\<close> to \<open>c5\<close> are \<^verbatim>\<open>row[0]\<close> to
  \<^verbatim>\<open>row[5]\<close>. A row of the system login table has the five elements \<open>s0\<close> to
  \<open>s4\<close>.
\<close>

record LoginRow =
  c0 :: bool
  c1 :: string
  c2 :: string
  c3 :: string
  c4 :: string
  c5 :: HyperlinkColumnCellValue

record SystemLoginRow =
  s0 :: string
  s1 :: string
  s2 :: string
  s3 :: string
  s4 :: HyperlinkColumnCellValue

text \<open>
  Reading the property \<^verbatim>\<open>title\<close> of a string primitive gives
  \<^verbatim>\<open>undefined\<close>: a string has no such property.
\<close>

definition titleOfString :: "string \<Rightarrow> string option" where
  "titleOfString s = None"

datatype MessageLevel = Error | Warning | Information

record DialogMessage =
  msgText :: loc
  msgLevel :: MessageLevel
  msgDescription :: "loc option"

datatype TableHeight = HeightText string | HeightNumber nat

datatype JsError = JsError (message: string)

datatype ValidateLoginMigrationValidationState = Pending | Running | Succeeded | Failed | Canceled

record LoginMigrationValidationResult =
  errors :: "string list"
  state :: ValidateLoginMigrationValidationState

record LoginMigrationModel =
  collectedSourceLogins :: bool
  collectedTargetLogins :: bool
  loginsOnSource :: "SourceLogin list"
  systemLoginsOnSource :: "SourceLogin list"
  loginsOnTarget :: "string list"
  loginsForMigration :: "SelectedLogin list option"
  loginsAuthType :: string

record MigrationStateModel =
  loginMigrationModel :: LoginMigrationModel
  isLoginMigrationTargetValidated :: bool
  isWindowsAuthMigrationSupported :: bool
  aadDomainName :: "string option"
  targetServerName :: string
  targetServerInstance :: "string option"
  targetUserName :: "string option"
  targetPassword :: "string option"
  targetPort :: string
  validateLoginMigration :: "LoginMigrationValidationResult list"

text \<open>
  The calls that leave the page, in the order in which they are made. An awaited query is
  two events, its start and its settlement. Members of the telemetry enumerations and
  imported constants appear by name. A telemetry event carries the properties and
  measurements that the page adds itself; those that \<^verbatim>\<open>getTelemetryProps\<close> supplies
  are left out.
\<close>

datatype Fetch = SourceLogins | TargetLogins

datatype Event =
    Started Fetch
  | Settled Fetch
  | LogError string string JsError
  | SendSqlMigrationActionEvent string string "(string \<times> string) list" "(string \<times> nat) list"
  | OpenDialog loc "LoginMigrationValidationResult list"

datatype NavigationValidator = NotRegistered | LoginSelectorValidator | AlwaysTrue

record PageChangeInfo =
  lastPage :: int
  newPage :: int

record Page =
  migrationStateModel :: MigrationStateModel
  isCurrentPage :: bool
  wizard_message :: DialogMessage
  wizard_customButton_hidden :: bool
  wizard_nextButton_label :: loc
  wizard_nextButton_enabled :: bool
  wizard_navigationValidator :: NavigationValidator
  wizardController_cancelReasons :: "loc list"
  windowsAuthInfoBox_display :: bool
  refreshLoading_loading :: bool
  refreshResultsInfoBox_display :: bool
  refreshResultsInfoBox_text :: loc
  refreshResultsInfoBox_style :: string
  aadDomainNameContainer_display :: bool
  loginSelectorTable_data :: "LoginRow list"
  loginSelectorTable_selectedRows :: "nat list option"
  loginSelectorTable_height :: TableHeight
  loginNames :: "string list"
  loginCount_value :: loc
  loginTableValues :: "LoginRow list option"
  filterTableValue :: "string option"
  systemLoginTable_data :: "SystemLoginRow list"
  systemLoginTableValues :: "SystemLoginRow list option"
  filterSystemLoginTableValue :: "string option"
  successfullyValidatedLogins :: "string set"
  successfullyValidatedEntraDomain :: "string option"
  log :: "Event list"

text \<open>
  The collaborators of the page that are defined in other modules or by the platform. A
  login query may change the migration state and may throw; \<open>getSourceLogins\<close> returns
  the state it leaves and the error it threw, if any.
\<close>

record Collaborators =
  api_getSourceLogins :: "MigrationStateModel \<Rightarrow> MigrationStateModel \<times> JsError option"
  api_collectTargetLogins :: "MigrationStateModel \<Rightarrow> JsError + string list"
  api_getLoginStatusImage :: "bool \<Rightarrow> string"
  api_getLoginStatusMessage :: "bool \<Rightarrow> string"
  model_selectedWindowsLogins :: "LoginMigrationModel \<Rightarrow> bool"
  js_toLowerCase :: "string \<Rightarrow> string"
  os_EOL :: string

text \<open>
  Modelled from the spec: \<^verbatim>\<open>updateControlDisplay\<close> of \<^verbatim>\<open>api/utils\<close> is not
  part of the file; the spec counts it under visibility toggling. The control is displayed
  exactly when the flag is true; the result is the new display state of the control.
\<close>

definition updateControlDisplay :: "bool \<Rightarrow> bool" where
  "updateControlDisplay visible = visible"

subsection \<open>The methods of the page\<close>

text \<open>
  \<^verbatim>\<open>selectedLogins\<close>: the selected row indices below the number of rows, each mapped to
  an object read from the cells of its row.
\<close>

definition selectedLogins :: "Page \<Rightarrow> SelectedLogin list" where
  "selectedLogins p =
     (let rows = loginSelectorTable_data p;
          logins = (case loginSelectorTable_selectedRows p of None \<Rightarrow> [] | Some l \<Rightarrow> l)
      in map (\<lambda>rowIdx.
                \<lparr>loginName = c1 (rows ! rowIdx),
                 loginType = c2 (rows ! rowIdx),
                 defaultDatabaseName = c3 (rows ! rowIdx),
                 status = titleOfString (c4 (rows ! rowIdx))\<rparr>)
             (filter (\<lambda>rowIdx. rowIdx < length rows) logins))"

definition isAllSelectedLoginsValidated :: "Page \<Rightarrow> bool" where
  "isAllSelectedLoginsValidated p =
     list_all (\<lambda>login. loginName login \<in> successfullyValidatedLogins p) (selectedLogins p)"

definition isTargetInstanceSet :: "MigrationStateModel \<Rightarrow> bool" where
  "isTargetInstanceSet stateMachine =
     (targetServerInstance stateMachine \<noteq> None
      \<and> truthy (targetUserName stateMachine)
      \<and> truthy (targetPassword stateMachine))"

text \<open>
  \<^verbatim>\<open>loginsForMigration?.length > 0\<close> is false when the list is \<^verbatim>\<open>undefined\<close>.
\<close>

definition updateNextButton :: "Page \<Rightarrow> Page" where
  "updateNextButton p =
     (if isCurrentPage p
      then p\<lparr>wizard_nextButton_label := LOGIN_MIGRATE_BUTTON_TEXT,
             wizard_nextButton_enabled :=
               (case loginsForMigration (loginMigrationModel (migrationStateModel p)) of
                  None \<Rightarrow> False
                | Some l \<Rightarrow> length l > 0)\<rparr>
      else p)"

definition resetNextButton :: "Page \<Rightarrow> Page" where
  "resetNextButton p = p\<lparr>wizard_nextButton_label := NEXT_LABEL, wizard_nextButton_enabled := True\<rparr>"

definition refreshAADInputBox :: "Collaborators \<Rightarrow> Page \<Rightarrow> Page" where
  "refreshAADInputBox ext p =
     (let selectedWindows =
            model_selectedWindowsLogins ext (loginMigrationModel (migrationStateModel p))
      in p\<lparr>aadDomainNameContainer_display := updateControlDisplay selectedWindows,
           loginSelectorTable_height := HeightNumber (if selectedWindows then 600 else 650)\<rparr>)"

definition updateValuesOnSelection :: "Collaborators \<Rightarrow> Page \<Rightarrow> Page" where
  "updateValuesOnSelection ext p =
     (let selected = selectedLogins p;
          p1 = p\<lparr>loginCount_value :=
                   LOGINS_SELECTED (length selected) (length (loginSelectorTable_data p))\<rparr>;
          stateMachine = migrationStateModel p1;
          p2 = p1\<lparr>migrationStateModel :=
                    stateMachine\<lparr>loginMigrationModel :=
                      (loginMigrationModel stateMachine)\<lparr>loginsForMigration := Some selected\<rparr>\<rparr>\<rparr>;
          p3 = refreshAADInputBox ext p2
      in updateNextButton p3)"

text \<open>
  The row predicate of \<^verbatim>\<open>_filterTableList\<close>: the five text cells of a row, each
  lower-cased and searched for the lower-cased search text.
\<close>

definition loginRowMatches :: "Collaborators \<Rightarrow> string \<Rightarrow> LoginRow \<Rightarrow> bool" where
  "loginRowMatches ext value row =
     (let searchText = js_toLowerCase ext value
      in indexOf (js_toLowerCase ext (c1 row)) searchText > - 1
         \<or> indexOf (js_toLowerCase ext (c2 row)) searchText > - 1
         \<or> indexOf (js_toLowerCase ext (c3 row)) searchText > - 1
         \<or> indexOf (js_toLowerCase ext (c4 row)) searchText > - 1
         \<or> indexOf (js_toLowerCase ext (title (c5 row))) searchText > - 1)"

text \<open>
  The body of \<^verbatim>\<open>_filterTableList\<close>. The search text and the selected list may each be
  \<^verbatim>\<open>undefined\<close>; an empty array is truthy, so only a missing list falls back to
  \<^verbatim>\<open>selectedLogins()\<close>. The method is decorated with a debounce of 500 ms, which
  decides when the body runs and is not part of the embedding.
\<close>

definition filterTableList ::
  "Collaborators \<Rightarrow> string option \<Rightarrow> SelectedLogin list option \<Rightarrow> Page \<Rightarrow> Page" where
  "filterTableList ext value selectedList p =
     (let p1 = p\<lparr>filterTableValue := value\<rparr>;
          selected = (case selectedList of Some l \<Rightarrow> l | None \<Rightarrow> selectedLogins p1);
          tableRows =
            (case loginTableValues p1 of
               None \<Rightarrow> []
             | Some rows \<Rightarrow>
                 (case value of
                    None \<Rightarrow> rows
                  | Some v \<Rightarrow>
                      if length v > 0 then filter (loginRowMatches ext v) rows else rows));
          selectedRows =
            filter (\<lambda>rowIdx.
                      list_ex (\<lambda>selectedLogin.
                                 js_toLowerCase ext (loginName selectedLogin)
                                   = js_toLowerCase ext (c1 (tableRows ! rowIdx)))
                              selected)
                   [0 ..< length tableRows];
          p2 = p1\<lparr>loginSelectorTable_data := tableRows\<rparr>;
          p3 = p2\<lparr>loginSelectorTable_selectedRows := Some selectedRows\<rparr>
      in updateValuesOnSelection ext p3)"

definition systemLoginRowMatches ::
  "Collaborators \<Rightarrow> string \<Rightarrow> SystemLoginRow \<Rightarrow> bool" where
  "systemLoginRowMatches ext value row =
     (let searchText = js_toLowerCase ext value
      in indexOf (js_toLowerCase ext (s0 row)) searchText > - 1
         \<or> indexOf (js_toLowerCase ext (s1 row)) searchText > - 1
         \<or> indexOf (js_toLowerCase ext (s2 row)) searchText > - 1
         \<or> indexOf (js_toLowerCase ext (s3 row)) searchText > - 1
         \<or> indexOf (js_toLowerCase ext (title (s4 row))) searchText > - 1)"

definition filterSystemTableList :: "Collaborators \<Rightarrow> string option \<Rightarrow> Page \<Rightarrow> Page" where
  "filterSystemTableList ext value p =
     (let p1 = p\<lparr>filterSystemLoginTableValue := value\<rparr>;
          tableRows =
            (case systemLoginTableValues p1 of
               None \<Rightarrow> []
             | Some rows \<Rightarrow>
                 (case value of
                    None \<Rightarrow> rows
                  | Some v \<Rightarrow>
                      if length v > 0 then filter (systemLoginRowMatches ext v) rows else rows))
      in p1\<lparr>systemLoginTable_data := tableRows\<rparr>)"

text \<open>
  \<^verbatim>\<open>_getSourceLogins\<close>: the query is called once, inside \<^verbatim>\<open>try\<close>; the
  \<^verbatim>\<open>catch\<close> block is the \<open>Some error\<close> branch.
\<close>

definition getSourceLogins :: "Collaborators \<Rightarrow> Page \<Rightarrow> Page" where
  "getSourceLogins ext p =
     (let stateMachine = migrationStateModel p;
          p1 = p\<lparr>log := log p @ [Started SourceLogins]\<rparr>;
          (stateMachine', thrown) = api_getSourceLogins ext stateMachine;
          p2 = p1\<lparr>migrationStateModel := stateMachine', log := log p1 @ [Settled SourceLogins]\<rparr>
      in case thrown of
           None \<Rightarrow> p2
         | Some error \<Rightarrow>
             p2\<lparr>refreshLoading_loading := False,
                refreshResultsInfoBox_style := ''error'',
                refreshResultsInfoBox_text := LOGIN_MIGRATION_REFRESH_SOURCE_LOGIN_DATA_FAILED,
                wizard_message :=
                  \<lparr>msgText = LOGIN_MIGRATIONS_GET_LOGINS_ERROR_TITLE ''source'',
                   msgLevel = Error,
                   msgDescription = Some (LOGIN_MIGRATIONS_GET_LOGINS_ERROR (message error))\<rparr>,
                log := log p2 @
                  [LogError ''LoginMigrationWizard'' ''CollectingSourceLoginsFailed'' error,
                   SendSqlMigrationActionEvent ''LoginMigrationSelectorPage'' ''LoginMigrationError''
                     [(''errorMessage'', ''CollectingSourceLoginsFailed'')] []]\<rparr>)"

text \<open>
  \<^verbatim>\<open>_getTargetLogins\<close>: the query runs only when the target instance is set. On
  success the collected names are stored in the migration state.
\<close>

definition getTargetLogins :: "Collaborators \<Rightarrow> Page \<Rightarrow> Page" where
  "getTargetLogins ext p =
     (let stateMachine = migrationStateModel p
      in if isTargetInstanceSet stateMachine
         then
           (let p1 = p\<lparr>log := log p @ [Started TargetLogins, Settled TargetLogins]\<rparr>
            in case api_collectTargetLogins ext stateMachine of
                 Inr targetLogins \<Rightarrow>
                   p1\<lparr>migrationStateModel :=
                        stateMachine\<lparr>loginMigrationModel :=
                          (loginMigrationModel stateMachine)
                            \<lparr>collectedTargetLogins := True,
                             loginsOnTarget := targetLogins\<rparr>\<rparr>\<rparr>
               | Inl error \<Rightarrow>
                   p1\<lparr>refreshLoading_loading := False,
                      refreshResultsInfoBox_style := ''error'',
                      refreshResultsInfoBox_text := LOGIN_MIGRATION_REFRESH_TARGET_LOGIN_DATA_FAILED,
                      wizard_message :=
                        \<lparr>msgText = LOGIN_MIGRATIONS_GET_LOGINS_ERROR_TITLE ''target'',
                         msgLevel = Error,
                         msgDescription = Some (LOGIN_MIGRATIONS_GET_LOGINS_ERROR (message error))\<rparr>,
                      log := log p1 @
                        [LogError ''LoginMigrationWizard'' ''CollectingTargetLoginsFailed'' error,
                         SendSqlMigrationActionEvent ''LoginMigrationSelectorPage''
                           ''LoginMigrationError''
                           [(''errorMessage'', ''CollectingTargetLoginsFailed'')] []]\<rparr>)
         else p)"

definition markRefreshDataStart :: "Page \<Rightarrow> Page" where
  "markRefreshDataStart p =
     p\<lparr>refreshLoading_loading := True,
       wizard_nextButton_enabled := False,
       refreshResultsInfoBox_display := updateControlDisplay True,
       refreshResultsInfoBox_text := LOGIN_MIGRATION_REFRESHING_LOGIN_DATA,
       refreshResultsInfoBox_style := ''information''\<rparr>"

definition markRefreshDataComplete :: "nat \<Rightarrow> nat \<Rightarrow> Page \<Rightarrow> Page" where
  "markRefreshDataComplete numSourceLogins numTargetLogins p =
     updateNextButton
       (p\<lparr>refreshLoading_loading := False,
          refreshResultsInfoBox_display := updateControlDisplay True,
          refreshResultsInfoBox_text :=
            LOGIN_MIGRATION_REFRESH_LOGIN_DATA_SUCCESSFUL numSourceLogins numTargetLogins,
          refreshResultsInfoBox_style := ''success''\<rparr>)"

text \<open>
  \<open>isLoginOnTarget\<close> is the test that \<^verbatim>\<open>_loadLoginList\<close> makes for a source login,
  and the two functions after it build one row of each table.
\<close>

definition isLoginOnTarget :: "Collaborators \<Rightarrow> string list \<Rightarrow> string \<Rightarrow> bool" where
  "isLoginOnTarget ext targetLogins name =
     list_ex (\<lambda>targetLogin. js_toLowerCase ext targetLogin = js_toLowerCase ext name)
       targetLogins"

definition loginTableRow ::
  "Collaborators \<Rightarrow> SelectedLogin list \<Rightarrow> string list \<Rightarrow> SourceLogin \<Rightarrow> LoginRow" where
  "loginTableRow ext selected targetLogins row =
     (let name = loginName row;
          onTarget = isLoginOnTarget ext targetLogins name
      in \<lparr>c0 = list_ex (\<lambda>selectedLogin.
                          js_toLowerCase ext (loginName selectedLogin)
                            = js_toLowerCase ext name) selected,
          c1 = name,
          c2 = loginType row,
          c3 = defaultDatabaseName row,
          c4 = status row,
          c5 = \<lparr>icon = api_getLoginStatusImage ext onTarget,
                title = api_getLoginStatusMessage ext onTarget\<rparr>\<rparr>)"

definition systemLoginTableRow ::
  "Collaborators \<Rightarrow> string list \<Rightarrow> SourceLogin \<Rightarrow> SystemLoginRow" where
  "systemLoginTableRow ext targetLogins row =
     (let onTarget = isLoginOnTarget ext targetLogins (loginName row)
      in \<lparr>s0 = loginName row,
          s1 = loginType row,
          s2 = defaultDatabaseName row,
          s3 = status row,
          s4 = \<lparr>icon = api_getLoginStatusImage ext onTarget,
                title = api_getLoginStatusMessage ext onTarget\<rparr>\<rparr>)"

definition loadLoginList :: "Collaborators \<Rightarrow> bool \<Rightarrow> Page \<Rightarrow> Page" where
  "loadLoginList ext runQuery p =
     (let selected =
            (case loginsForMigration (loginMigrationModel (migrationStateModel p)) of
               None \<Rightarrow> []
             | Some l \<Rightarrow> l);
          p1 = (if runQuery
                   \<or> \<not> collectedSourceLogins (loginMigrationModel (migrationStateModel p))
                then getSourceLogins ext (markRefreshDataStart p)
                else p);
          p2 = (if runQuery
                   \<or> \<not> collectedTargetLogins (loginMigrationModel (migrationStateModel p1))
                then getTargetLogins ext (markRefreshDataStart p1)
                else p1);
          sourceLogins = loginsOnSource (loginMigrationModel (migrationStateModel p2));
          sourceSystemLogins = systemLoginsOnSource (loginMigrationModel (migrationStateModel p2));
          targetLogins = loginsOnTarget (loginMigrationModel (migrationStateModel p2));
          p3 = p2\<lparr>loginNames := map loginName sourceLogins,
                  loginTableValues := Some (map (loginTableRow ext selected targetLogins) sourceLogins)\<rparr>;
          p4 = filterTableList ext (filterTableValue p3) None p3;
          p5 = p4\<lparr>systemLoginTableValues :=
                    Some (map (systemLoginTableRow ext targetLogins) sourceSystemLogins)\<rparr>;
          p6 = filterSystemTableList ext (filterSystemLoginTableValue p5) p5
      in markRefreshDataComplete (length sourceLogins) (length targetLogins) p6)"

text \<open>
  The navigation validator that \<^verbatim>\<open>onPageEnter\<close> registers. It reads the page as it
  is when the wizard calls it, and returns its verdict and the page with the message it set.
\<close>

definition navigationValidator ::
  "Collaborators \<Rightarrow> PageChangeInfo \<Rightarrow> Page \<Rightarrow> bool \<times> Page" where
  "navigationValidator ext pageChangeInfo p =
     (let p0 = p\<lparr>wizard_message :=
                  \<lparr>msgText = Literal [], msgLevel = Error, msgDescription = None\<rparr>\<rparr>;
          stateMachine = migrationStateModel p0;
          selectedWindows = model_selectedWindowsLogins ext (loginMigrationModel stateMachine)
      in if newPage pageChangeInfo < lastPage pageChangeInfo then (True, p0)
         else if length (selectedLogins p0) = 0
                 \<or> \<not> isLoginMigrationTargetValidated stateMachine
         then (False,
               p0\<lparr>wizard_message :=
                    \<lparr>msgText = SELECT_LOGIN_AND_RUN_VALIDATION_TO_CONTINUE,
                     msgLevel = Error, msgDescription = None\<rparr>\<rparr>)
         else if selectedWindows \<and> \<not> truthy (aadDomainName stateMachine)
         then (False,
               p0\<lparr>wizard_message :=
                    \<lparr>msgText = ENTER_ENTRA_ID, msgLevel = Error, msgDescription = None\<rparr>\<rparr>)
         else if selectedWindows
                 \<and> successfullyValidatedEntraDomain p0 \<noteq> aadDomainName stateMachine
         then (False,
               p0\<lparr>wizard_message :=
                    \<lparr>msgText = ENTRA_DOMAIN_NOT_VALIDATED, msgLevel = Error,
                     msgDescription = None\<rparr>\<rparr>)
         else if \<not> isAllSelectedLoginsValidated p0
         then (False,
               p0\<lparr>wizard_message :=
                    \<lparr>msgText = VALIDATE_ALL_LOGINS, msgLevel = Error, msgDescription = None\<rparr>\<rparr>)
         else (True, p0))"

text \<open>What the wizard gets when it asks the registered validator.\<close>

definition registeredValidator ::
  "Collaborators \<Rightarrow> Page \<Rightarrow> (PageChangeInfo \<Rightarrow> Page \<Rightarrow> bool \<times> Page) option" where
  "registeredValidator ext p =
     (case wizard_navigationValidator p of
        NotRegistered \<Rightarrow> None
      | LoginSelectorValidator \<Rightarrow> Some (navigationValidator ext)
      | AlwaysTrue \<Rightarrow> Some (\<lambda>pageChangeInfo q. (True, q)))"

definition onPageEnter :: "Collaborators \<Rightarrow> Page \<Rightarrow> Page" where
  "onPageEnter ext p =
     (let p1 = p\<lparr>wizardController_cancelReasons :=
                  [WIZARD_CANCEL_REASON_CONTINUE_WITH_MIGRATION_LATER,
                   WIZARD_CANCEL_REASON_NEED_TO_REVIEW_LOGIN_SELECTION]\<rparr>;
          p2 = p1\<lparr>wizard_customButton_hidden := False\<rparr>;
          p3 = p2\<lparr>isCurrentPage := True\<rparr>;
          p4 = updateNextButton p3;
          p5 = p4\<lparr>wizard_navigationValidator := LoginSelectorValidator\<rparr>;
          p6 = p5\<lparr>windowsAuthInfoBox_display :=
                    updateControlDisplay
                      (\<not> isWindowsAuthMigrationSupported (migrationStateModel p5))\<rparr>
      in loadLoginList ext False p6)"

definition onPageLeave :: "Page \<Rightarrow> Page" where
  "onPageLeave p =
     (let p1 = p\<lparr>wizard_customButton_hidden := True\<rparr>;
          p2 = p1\<lparr>wizard_navigationValidator := AlwaysTrue\<rparr>;
          p3 = p2\<lparr>isCurrentPage := False\<rparr>
      in resetNextButton p3)"

text \<open>
  \<^verbatim>\<open>_validateLoginPreMigration\<close>, the click handler of the validate button. The guard is
  \<^verbatim>\<open>loginsForMigration?.length <= 0\<close>; with the list \<^verbatim>\<open>undefined\<close> it compares
  \<^verbatim>\<open>undefined <= 0\<close>, which is false.
\<close>

definition validateLoginPreMigration :: "Page \<Rightarrow> Page" where
  "validateLoginPreMigration p =
     (if (case loginsForMigration (loginMigrationModel (migrationStateModel p)) of
            None \<Rightarrow> False
          | Some l \<Rightarrow> length l \<le> 0)
      then p\<lparr>wizard_message :=
               \<lparr>msgText = SELECT_LOGIN_TO_CONTINUE, msgLevel = Error, msgDescription = None\<rparr>\<rparr>
      else p\<lparr>log := log p @
               [OpenDialog VALIDATION_DIALOG_TITLE
                  (validateLoginMigration (migrationStateModel p))]\<rparr>)"

text \<open>The text-changed handler of the domain name input box.\<close>

definition onAadDomainNameChanged :: "string option \<Rightarrow> Page \<Rightarrow> Page" where
  "onAadDomainNameChanged value p =
     p\<lparr>migrationStateModel :=
         (migrationStateModel p)
           \<lparr>aadDomainName := Some (case value of None \<Rightarrow> [] | Some v \<Rightarrow> v)\<rparr>\<rparr>"

text \<open>\<^verbatim>\<open>Array.prototype.join\<close> on strings.\<close>

fun join :: "string \<Rightarrow> string list \<Rightarrow> string" where
  "join sep [] = []"
| "join sep [x] = x"
| "join sep (x # y # ys) = x @ sep @ join sep (y # ys)"

text \<open>
  The two telemetry methods read \<^verbatim>\<open>loginsForMigration.length\<close> without a guard: with
  the list \<^verbatim>\<open>undefined\<close> they throw a \<^verbatim>\<open>TypeError\<close>.
\<close>

definition logLoginMigrationPreValidationSuccessful :: "Page \<Rightarrow> JsError + Page" where
  "logLoginMigrationPreValidationSuccessful p =
     (let model = loginMigrationModel (migrationStateModel p)
      in case loginsForMigration model of
           None \<Rightarrow> Inl (JsError ''TypeError'')
         | Some l \<Rightarrow>
             Inr (p\<lparr>log := log p @
                    [SendSqlMigrationActionEvent ''LoginMigrationSelectorPage''
                       ''LoginMigrationPreValidationSuccessful''
                       [(''loginsAuthType'', loginsAuthType model)]
                       [(''numberLogins'', length l)]]\<rparr>))"

definition logLoginMigrationPreValidationFailed :: "Page \<Rightarrow> JsError + Page" where
  "logLoginMigrationPreValidationFailed p =
     (let model = loginMigrationModel (migrationStateModel p)
      in case loginsForMigration model of
           None \<Rightarrow> Inl (JsError ''TypeError'')
         | Some l \<Rightarrow>
             Inr (p\<lparr>log := log p @
                    [SendSqlMigrationActionEvent ''LoginMigrationSelectorPage''
                       ''LoginMigrationPreValidationFailed''
                       [(''loginsAuthType'', loginsAuthType model)]
                       [(''numberLogins'', length l)]]\<rparr>))"

text \<open>
  \<^verbatim>\<open>updateValidationResultUI\<close>, the callback of the validation dialog. The result is the
  page as the method leaves it, and the error it threw, if any.
\<close>

definition updateValidationResultUI ::
  "Collaborators \<Rightarrow> bool option \<Rightarrow> Page \<Rightarrow> Page \<times> JsError option" where
  "updateValidationResultUI ext initializing p =
     (let succeeded = isLoginMigrationTargetValidated (migrationStateModel p);
          p1 = p\<lparr>successfullyValidatedLogins := {}\<rparr>
      in if succeeded
         then
           (case logLoginMigrationPreValidationSuccessful p1 of
              Inl error \<Rightarrow> (p1, Some error)
            | Inr p2 \<Rightarrow>
                (let p3 = p2\<lparr>successfullyValidatedLogins :=
                              fold (\<lambda>login. insert (loginName login)) (selectedLogins p2)
                                (successfullyValidatedLogins p2)\<rparr>;
                     p4 = (if model_selectedWindowsLogins ext
                                (loginMigrationModel (migrationStateModel p3))
                           then p3\<lparr>successfullyValidatedEntraDomain :=
                                     aadDomainName (migrationStateModel p3)\<rparr>
                           else p3)
                 in (p4\<lparr>wizard_message :=
                          \<lparr>msgText = LOGIN_MIGRATION_VALIDATION_MESSAGE_SUCCESS,
                           msgLevel = Information, msgDescription = None\<rparr>\<rparr>,
                     None)))
         else
           (case logLoginMigrationPreValidationFailed p1 of
              Inl error \<Rightarrow> (p1, Some error)
            | Inr p2 \<Rightarrow>
                (let results = validateLoginMigration (migrationStateModel p2);
                     hasResults = (length results > 0)
                 in if initializing = Some True \<and> \<not> hasResults then (p2, None)
                    else
                      (let canceled = list_ex (\<lambda>result. state result = Canceled) results;
                           errs = concat (map errors results);
                           errorsMessage = join (os_EOL ext) errs;
                           hasErrors = (length errs > 0);
                           msg = (if hasResults
                                  then if hasErrors
                                       then if canceled
                                            then VALIDATION_MESSAGE_CANCELED_ERRORS errorsMessage
                                            else VALIDATE_LOGIN_MIGRATION_VALIDATION_COMPLETED_ERRORS
                                                   errorsMessage
                                       else VALIDATION_MESSAGE_CANCELED
                                  else VALIDATION_MESSAGE_NOT_RUN)
                       in (p2\<lparr>wizard_message :=
                                \<lparr>msgText = msg, msgLevel = Error, msgDescription = None\<rparr>\<rparr>,
                           None)))))"

subsection \<open>The page between lifecycle transitions\<close>

text \<open>
  The states of the page from its first lifecycle hook on. Every handler that the page
  registers runs to completion as one step; the collaborators may answer differently at
  every step. The last rule is a change of the shared migration state made elsewhere in the
  wizard.
\<close>

inductive reachable :: "Page \<Rightarrow> bool" where
  entered: "reachable (onPageEnter ext p)"
| left: "reachable (onPageLeave p)"
| searchTextChanged:
    "reachable p \<Longrightarrow>
     reachable (filterTableList ext (Some value)
       (Some (case loginsForMigration (loginMigrationModel (migrationStateModel p)) of
                None \<Rightarrow> []
              | Some l \<Rightarrow> l)) p)"
| systemSearchTextChanged:
    "reachable p \<Longrightarrow> reachable (filterSystemTableList ext (Some value) p)"
| rowSelected:
    "reachable p \<Longrightarrow>
     reachable (updateValuesOnSelection ext (p\<lparr>loginSelectorTable_selectedRows := Some rows\<rparr>))"
| refreshClicked: "reachable p \<Longrightarrow> reachable (loadLoginList ext True p)"
| validateClicked: "reachable p \<Longrightarrow> reachable (validateLoginPreMigration p)"
| aadDomainNameChanged: "reachable p \<Longrightarrow> reachable (onAadDomainNameChanged value p)"
| validationResult:
    "reachable p \<Longrightarrow> reachable (fst (updateValidationResultUI ext initializing p))"
| navigationAsked:
    "reachable p \<Longrightarrow> registeredValidator ext p = Some validator \<Longrightarrow>
     reachable (snd (validator pageChangeInfo p))"
| stateChanged: "reachable p \<Longrightarrow> reachable (p\<lparr>migrationStateModel := stateMachine\<rparr>)"

text \<open>
  The states that the handlers of the page reach by themselves, without a change of the
  shared migration state made elsewhere.
\<close>

inductive reachedByHandlers :: "Page \<Rightarrow> bool" where
  entered: "reachedByHandlers (onPageEnter ext p)"
| left: "reachedByHandlers (onPageLeave p)"
| searchTextChanged:
    "reachedByHandlers p \<Longrightarrow>
     reachedByHandlers (filterTableList ext (Some value)
       (Some (case loginsForMigration (loginMigrationModel (migrationStateModel p)) of
                None \<Rightarrow> []
              | Some l \<Rightarrow> l)) p)"
| systemSearchTextChanged:
    "reachedByHandlers p \<Longrightarrow> reachedByHandlers (filterSystemTableList ext (Some value) p)"
| rowSelected:
    "reachedByHandlers p \<Longrightarrow>
     reachedByHandlers
       (updateValuesOnSelection ext (p\<lparr>loginSelectorTable_selectedRows := Some rows\<rparr>))"
| refreshClicked: "reachedByHandlers p \<Longrightarrow> reachedByHandlers (loadLoginList ext True p)"
| validateClicked: "reachedByHandlers p \<Longrightarrow> reachedByHandlers (validateLoginPreMigration p)"
| aadDomainNameChanged:
    "reachedByHandlers p \<Longrightarrow> reachedByHandlers (onAadDomainNameChanged value p)"
| validationResult:
    "reachedByHandlers p \<Longrightarrow>
     reachedByHandlers (fst (updateValidationResultUI ext initializing p))"
| navigationAsked:
    "reachedByHandlers p \<Longrightarrow> registeredValidator ext p = Some validator \<Longrightarrow>
     reachedByHandlers (snd (validator pageChangeInfo p))"

subsection \<open>The properties, in the words of the specification\<close>

text \<open>
  Case is ignored by comparing lower-case forms; \<open>lower\<close> is the lower-casing in use.
  Two strings are equal under case-insensitive comparison when their lower-case forms are
  equal.
\<close>

definition equalIgnoringCase :: "(string \<Rightarrow> string) \<Rightarrow> string \<Rightarrow> string \<Rightarrow> bool" where
  "equalIgnoringCase lower a b = (lower a = lower b)"




text \<open>The stored tables; a table that was never loaded has no rows.\<close>

definition storedLoginRows :: "Page \<Rightarrow> LoginRow list" where
  "storedLoginRows p = (case loginTableValues p of None \<Rightarrow> [] | Some rows \<Rightarrow> rows)"

definition storedSystemLoginRows :: "Page \<Rightarrow> SystemLoginRow list" where
  "storedSystemLoginRows p = (case systemLoginTableValues p of None \<Rightarrow> [] | Some rows \<Rightarrow> rows)"

text \<open>The target-presence marker that says whether a login exists on the target.\<close>

definition targetMarker :: "Collaborators \<Rightarrow> bool \<Rightarrow> HyperlinkColumnCellValue" where
  "targetMarker ext present =
     \<lparr>icon = api_getLoginStatusImage ext present, title = api_getLoginStatusMessage ext present\<rparr>"

text \<open>Row \<open>i\<close> of the login table is marked selected.\<close>

definition rowMarkedSelected :: "Page \<Rightarrow> nat \<Rightarrow> bool" where
  "rowMarkedSelected p i =
     (case loginSelectorTable_selectedRows p of None \<Rightarrow> False | Some rows \<Rightarrow> i \<in> set rows)"

text \<open>The fetch events of a log.\<close>

fun isFetchEvent :: "Event \<Rightarrow> bool" where
  "isFetchEvent (Started f) = True"
| "isFetchEvent (Settled f) = True"
| "isFetchEvent e = False"

fun isTelemetryErrorEvent :: "Event \<Rightarrow> bool" where
  "isTelemetryErrorEvent (SendSqlMigrationActionEvent view action props ms) =
     (action = ''LoginMigrationError'')"
| "isTelemetryErrorEvent e = False"

subsection \<open>A concrete wizard\<close>

text \<open>
  For the examples, strings of code units below 256 and the lower-casing of the letters of
  Basic Latin and of Latin-1: A to Z, and the code units C0 to DE except the multiplication
  sign D7, each moved to the code unit 32 above it.
\<close>

definition exampleLowerChar :: "char \<Rightarrow> char" where
  "exampleLowerChar c =
     (case map_of
        (zip (''ABCDEFGHIJKLMNOPQRSTUVWXYZ'' @
          [CHR 0xC0, CHR 0xC1, CHR 0xC2, CHR 0xC3, CHR 0xC4, CHR 0xC5, CHR 0xC6, CHR 0xC7,
           CHR 0xC8, CHR 0xC9, CHR 0xCA, CHR 0xCB, CHR 0xCC, CHR 0xCD, CHR 0xCE, CHR 0xCF,
           CHR 0xD0, CHR 0xD1, CHR 0xD2, CHR 0xD3, CHR 0xD4, CHR 0xD5, CHR 0xD6, CHR 0xD8,
           CHR 0xD9, CHR 0xDA, CHR 0xDB, CHR 0xDC, CHR 0xDD, CHR 0xDE])
         (''abcdefghijklmnopqrstuvwxyz'' @
          [CHR 0xE0, CHR 0xE1, CHR 0xE2, CHR 0xE3, CHR 0xE4, CHR 0xE5, CHR 0xE6, CHR 0xE7,
           CHR 0xE8, CHR 0xE9, CHR 0xEA, CHR 0xEB, CHR 0xEC, CHR 0xED, CHR 0xEE, CHR 0xEF,
           CHR 0xF0, CHR 0xF1, CHR 0xF2, CHR 0xF3, CHR 0xF4, CHR 0xF5, CHR 0xF6, CHR 0xF8,
           CHR 0xF9, CHR 0xFA, CHR 0xFB, CHR 0xFC, CHR 0xFD, CHR 0xFE])) c of
        None \<Rightarrow> c
      | Some l \<Rightarrow> l)"

definition exampleToLowerCase :: "string \<Rightarrow> string" where
  "exampleToLowerCase s = map exampleLowerChar s"

text \<open>The name \<open>jos\<close> followed by e with acute accent, in lower and in upper case.\<close>

definition joseLower :: string where
  "joseLower = ''jos'' @ [CHR 0xE9]"

definition joseUpper :: string where
  "joseUpper = ''JOS'' @ [CHR 0xC9]"

text \<open>
  A source server with the logins \<open>sa\<close>, \<open>CORP/bob\<close> and \<open>joseLower\<close> and one
  system login, and a target server on which \<open>SA\<close> and \<open>joseUpper\<close> exist.
\<close>

definition exampleSa :: SourceLogin where
  "exampleSa =
     \<lparr>loginName = ''sa'', loginType = ''sql_login'', defaultDatabaseName = ''master'',
      status = ''Enabled''\<rparr>"

definition exampleBob :: SourceLogin where
  "exampleBob =
     \<lparr>loginName = ''CORP/bob'', loginType = ''windows_login'', defaultDatabaseName = ''tempdb'',
      status = ''Disabled''\<rparr>"

definition exampleJose :: SourceLogin where
  "exampleJose =
     \<lparr>loginName = joseLower, loginType = ''sql_login'', defaultDatabaseName = ''model'',
      status = ''Enabled''\<rparr>"

definition examplePolicy :: SourceLogin where
  "examplePolicy =
     \<lparr>loginName = ''##MS_Policy##'', loginType = ''sql_login'', defaultDatabaseName = ''master'',
      status = ''Disabled''\<rparr>"

definition exampleCollaborators :: Collaborators where
  "exampleCollaborators =
     \<lparr>api_getSourceLogins =
        (\<lambda>stateMachine.
           (stateMachine\<lparr>loginMigrationModel :=
              (loginMigrationModel stateMachine)
                \<lparr>collectedSourceLogins := True,
                 loginsOnSource := [exampleSa, exampleBob, exampleJose],
                 systemLoginsOnSource := [examplePolicy]\<rparr>\<rparr>,
            None)),
      api_collectTargetLogins = (\<lambda>stateMachine. Inr [''SA'', joseUpper]),
      api_getLoginStatusImage = (\<lambda>found. if found then ''completedMigration'' else ''notFound''),
      api_getLoginStatusMessage = (\<lambda>found. if found then ''Login found'' else ''Login not found''),
      model_selectedWindowsLogins =
        (\<lambda>model. case loginsForMigration model of
                     None \<Rightarrow> False
                   | Some l \<Rightarrow> list_ex (\<lambda>login. loginType login = ''windows_login'') l),
      js_toLowerCase = exampleToLowerCase,
      os_EOL = [CHR 0x0A]\<rparr>"

text \<open>The same wizard with both servers unreachable: each query throws.\<close>

definition failingCollaborators :: Collaborators where
  "failingCollaborators =
     exampleCollaborators
       \<lparr>api_getSourceLogins := (\<lambda>stateMachine. (stateMachine, Some (JsError ''Login timeout''))),
        api_collectTargetLogins := (\<lambda>stateMachine. Inl (JsError ''Login timeout''))\<rparr>"

text \<open>
  The shared migration state of the examples: no logins collected yet,
  \<^verbatim>\<open>loginsForMigration\<close> assigned the empty list by the first
  \<^verbatim>\<open>_filterTableList\<close> of \<^verbatim>\<open>registerContent\<close>, the target instance set,
  and a login migration target that counts as validated.
\<close>

definition exampleStateModel :: MigrationStateModel where
  "exampleStateModel =
     \<lparr>loginMigrationModel =
        \<lparr>collectedSourceLogins = False,
         collectedTargetLogins = False,
         loginsOnSource = [],
         systemLoginsOnSource = [],
         loginsOnTarget = [],
         loginsForMigration = Some [],
         loginsAuthType = ''sql_login''\<rparr>,
      isLoginMigrationTargetValidated = True,
      isWindowsAuthMigrationSupported = True,
      aadDomainName = None,
      targetServerName = ''target'',
      targetServerInstance = Some ''instance-1'',
      targetUserName = Some ''admin'',
      targetPassword = Some ''secret'',
      targetPort = ''1433'',
      validateLoginMigration = []\<rparr>"

text \<open>
  The page as the constructor and \<^verbatim>\<open>registerContent\<close> leave it, once the first
  \<^verbatim>\<open>_filterSystemTableList\<close> and \<^verbatim>\<open>_filterTableList\<close> have run with the empty
  search text: not current, the validate button hidden, both tables without rows, the
  empty selection stored in the table and in \<^verbatim>\<open>loginsForMigration\<close>, the domain name
  input hidden and the table height 650.
\<close>

definition examplePage :: Page where
  "examplePage =
     \<lparr>migrationStateModel = exampleStateModel,
      isCurrentPage = False,
      wizard_message = \<lparr>msgText = Literal [], msgLevel = Information, msgDescription = None\<rparr>,
      wizard_customButton_hidden = True,
      wizard_nextButton_label = NEXT_LABEL,
      wizard_nextButton_enabled = True,
      wizard_navigationValidator = NotRegistered,
      wizardController_cancelReasons = [],
      windowsAuthInfoBox_display = False,
      refreshLoading_loading = False,
      refreshResultsInfoBox_display = False,
      refreshResultsInfoBox_text = Literal [],
      refreshResultsInfoBox_style = ''success'',
      aadDomainNameContainer_display = False,
      loginSelectorTable_data = [],
      loginSelectorTable_selectedRows = Some [],
      loginSelectorTable_height = HeightNumber 650,
      loginNames = [],
      loginCount_value = LOGINS_SELECTED 0 0,
      loginTableValues = None,
      filterTableValue = Some [],
      systemLoginTable_data = [],
      systemLoginTableValues = None,
      filterSystemLoginTableValue = Some [],
      successfullyValidatedLogins = {},
      successfullyValidatedEntraDomain = None,
      log = []\<rparr>"

text \<open>The rows that a refresh builds for the example servers.\<close>

definition exampleRows :: "LoginRow list" where
  "exampleRows =
     [\<lparr>c0 = False, c1 = ''sa'', c2 = ''sql_login'', c3 = ''master'', c4 = ''Enabled'',
       c5 = \<lparr>icon = ''completedMigration'', title = ''Login found''\<rparr>\<rparr>,
      \<lparr>c0 = False, c1 = ''CORP/bob'', c2 = ''windows_login'', c3 = ''tempdb'', c4 = ''Disabled'',
       c5 = \<lparr>icon = ''notFound'', title = ''Login not found''\<rparr>\<rparr>,
      \<lparr>c0 = False, c1 = joseLower, c2 = ''sql_login'', c3 = ''model'', c4 = ''Enabled'',
       c5 = \<lparr>icon = ''completedMigration'', title = ''Login found''\<rparr>\<rparr>]"

definition exampleSystemRows :: "SystemLoginRow list" where
  "exampleSystemRows =
     [\<lparr>s0 = ''##MS_Policy##'', s1 = ''sql_login'', s2 = ''master'', s3 = ''Disabled'',
       s4 = \<lparr>icon = ''notFound'', title = ''Login not found''\<rparr>\<rparr>]"

text \<open>
  The page after it was entered, the user selected the first row, \<open>sa\<close>, and the
  validation dialog reported success.
\<close>

definition exampleShownPage :: Page where
  "exampleShownPage =
     fst (updateValidationResultUI exampleCollaborators None
       (updateValuesOnSelection exampleCollaborators
          ((onPageEnter exampleCollaborators examplePage)
             \<lparr>loginSelectorTable_selectedRows := Some [0]\<rparr>)))"

text \<open>
  The page after it was entered, the user selected \<open>sa\<close> and the windows login
  \<open>CORP/bob\<close> and entered a domain name, and the validation dialog reported success.
\<close>

definition exampleWindowsPage :: Page where
  "exampleWindowsPage =
     fst (updateValidationResultUI exampleCollaborators None
       (onAadDomainNameChanged (Some ''corp.example'')
          (updateValuesOnSelection exampleCollaborators
             ((onPageEnter exampleCollaborators examplePage)
                \<lparr>loginSelectorTable_selectedRows := Some [0, 1]\<rparr>))))"

section \<open>Proofs\<close>

subsection \<open>Searching a string\<close>







subsection \<open>What a selection update leaves alone\<close>

lemma updateNextButton_data [simp]:
  "loginSelectorTable_data (updateNextButton p) = loginSelectorTable_data p"
  by (simp add: updateNextButton_def)

lemma refreshAADInputBox_data [simp]:
  "loginSelectorTable_data (refreshAADInputBox ext p) = loginSelectorTable_data p"
  by (simp add: refreshAADInputBox_def Let_def)

lemma updateValuesOnSelection_data [simp]:
  "loginSelectorTable_data (updateValuesOnSelection ext p) = loginSelectorTable_data p"
  by (simp add: updateValuesOnSelection_def Let_def)

subsection \<open>Filtering\<close>





subsection \<open>The lifecycle fields\<close>

text \<open>
  Only the two lifecycle hooks write the visibility of the validate button, the current-page
  flag and the registered navigation validator.
\<close>

lemma updateNextButton_lifecycle [simp]:
  "wizard_customButton_hidden (updateNextButton p) = wizard_customButton_hidden p"
  "isCurrentPage (updateNextButton p) = isCurrentPage p"
  "wizard_navigationValidator (updateNextButton p) = wizard_navigationValidator p"
  by (simp_all add: updateNextButton_def)

lemma resetNextButton_lifecycle [simp]:
  "wizard_customButton_hidden (resetNextButton p) = wizard_customButton_hidden p"
  "isCurrentPage (resetNextButton p) = isCurrentPage p"
  "wizard_navigationValidator (resetNextButton p) = wizard_navigationValidator p"
  by (simp_all add: resetNextButton_def)

lemma refreshAADInputBox_lifecycle [simp]:
  "wizard_customButton_hidden (refreshAADInputBox ext p) = wizard_customButton_hidden p"
  "isCurrentPage (refreshAADInputBox ext p) = isCurrentPage p"
  "wizard_navigationValidator (refreshAADInputBox ext p) = wizard_navigationValidator p"
  by (simp_all add: refreshAADInputBox_def Let_def)

lemma updateValuesOnSelection_lifecycle [simp]:
  "wizard_customButton_hidden (updateValuesOnSelection ext p) = wizard_customButton_hidden p"
  "isCurrentPage (updateValuesOnSelection ext p) = isCurrentPage p"
  "wizard_navigationValidator (updateValuesOnSelection ext p) = wizard_navigationValidator p"
  by (simp_all add: updateValuesOnSelection_def Let_def)

lemma filterTableList_lifecycle [simp]:
  "wizard_customButton_hidden (filterTableList ext value selectedList p) = wizard_customButton_hidden p"
  "isCurrentPage (filterTableList ext value selectedList p) = isCurrentPage p"
  "wizard_navigationValidator (filterTableList ext value selectedList p) = wizard_navigationValidator p"
  by (simp_all add: filterTableList_def Let_def)

lemma filterSystemTableList_lifecycle [simp]:
  "wizard_customButton_hidden (filterSystemTableList ext value p) = wizard_customButton_hidden p"
  "isCurrentPage (filterSystemTableList ext value p) = isCurrentPage p"
  "wizard_navigationValidator (filterSystemTableList ext value p) = wizard_navigationValidator p"
  by (simp_all add: filterSystemTableList_def Let_def)

lemma getSourceLogins_lifecycle [simp]:
  "wizard_customButton_hidden (getSourceLogins ext p) = wizard_customButton_hidden p"
  "isCurrentPage (getSourceLogins ext p) = isCurrentPage p"
  "wizard_navigationValidator (getSourceLogins ext p) = wizard_navigationValidator p"
  by (simp_all add: getSourceLogins_def Let_def split: prod.splits option.splits)

lemma getTargetLogins_lifecycle [simp]:
  "wizard_customButton_hidden (getTargetLogins ext p) = wizard_customButton_hidden p"
  "isCurrentPage (getTargetLogins ext p) = isCurrentPage p"
  "wizard_navigationValidator (getTargetLogins ext p) = wizard_navigationValidator p"
  by (simp_all add: getTargetLogins_def Let_def split: sum.splits)

lemma markRefreshDataStart_lifecycle [simp]:
  "wizard_customButton_hidden (markRefreshDataStart p) = wizard_customButton_hidden p"
  "isCurrentPage (markRefreshDataStart p) = isCurrentPage p"
  "wizard_navigationValidator (markRefreshDataStart p) = wizard_navigationValidator p"
  by (simp_all add: markRefreshDataStart_def)

lemma markRefreshDataComplete_lifecycle [simp]:
  "wizard_customButton_hidden (markRefreshDataComplete n m p) = wizard_customButton_hidden p"
  "isCurrentPage (markRefreshDataComplete n m p) = isCurrentPage p"
  "wizard_navigationValidator (markRefreshDataComplete n m p) = wizard_navigationValidator p"
  by (simp_all add: markRefreshDataComplete_def)

lemma loadLoginList_lifecycle [simp]:
  "wizard_customButton_hidden (loadLoginList ext runQuery p) = wizard_customButton_hidden p"
  "isCurrentPage (loadLoginList ext runQuery p) = isCurrentPage p"
  "wizard_navigationValidator (loadLoginList ext runQuery p) = wizard_navigationValidator p"
  by (simp_all add: loadLoginList_def Let_def)

lemma validateLoginPreMigration_lifecycle [simp]:
  "wizard_customButton_hidden (validateLoginPreMigration p) = wizard_customButton_hidden p"
  "isCurrentPage (validateLoginPreMigration p) = isCurrentPage p"
  "wizard_navigationValidator (validateLoginPreMigration p) = wizard_navigationValidator p"
  by (simp_all add: validateLoginPreMigration_def)

lemma onAadDomainNameChanged_lifecycle [simp]:
  "wizard_customButton_hidden (onAadDomainNameChanged value p) = wizard_customButton_hidden p"
  "isCurrentPage (onAadDomainNameChanged value p) = isCurrentPage p"
  "wizard_navigationValidator (onAadDomainNameChanged value p) = wizard_navigationValidator p"
  by (simp_all add: onAadDomainNameChanged_def)

lemma updateValidationResultUI_lifecycle [simp]:
  "wizard_customButton_hidden (fst (updateValidationResultUI ext initializing p)) = wizard_customButton_hidden p"
  "isCurrentPage (fst (updateValidationResultUI ext initializing p)) = isCurrentPage p"
  "wizard_navigationValidator (fst (updateValidationResultUI ext initializing p)) = wizard_navigationValidator p"
  by (auto simp add: updateValidationResultUI_def Let_def logLoginMigrationPreValidationSuccessful_def
      logLoginMigrationPreValidationFailed_def split: sum.splits option.splits)

lemma navigationValidator_lifecycle [simp]:
  "wizard_customButton_hidden (snd (navigationValidator ext info p)) = wizard_customButton_hidden p"
  "isCurrentPage (snd (navigationValidator ext info p)) = isCurrentPage p"
  "wizard_navigationValidator (snd (navigationValidator ext info p)) = wizard_navigationValidator p"
  by (simp_all add: navigationValidator_def Let_def)

lemma registered_lifecycle:
  assumes "registeredValidator ext p = Some validator"
  shows "wizard_customButton_hidden (snd (validator info p)) = wizard_customButton_hidden p"
    and "isCurrentPage (snd (validator info p)) = isCurrentPage p"
    and "wizard_navigationValidator (snd (validator info p)) = wizard_navigationValidator p"
  using assms by (auto simp: registeredValidator_def split: NavigationValidator.splits)

lemma onPageEnter_lifecycle:
  "wizard_customButton_hidden (onPageEnter ext p) = False"
  "isCurrentPage (onPageEnter ext p) = True"
  "wizard_navigationValidator (onPageEnter ext p) = LoginSelectorValidator"
  by (simp_all add: onPageEnter_def Let_def)

lemma onPageLeave_lifecycle:
  "wizard_customButton_hidden (onPageLeave p) = True"
  "isCurrentPage (onPageLeave p) = False"
  "wizard_navigationValidator (onPageLeave p) = AlwaysTrue"
  by (simp_all add: onPageLeave_def Let_def)

lemma reachable_lifecycle:
  "reachable p \<Longrightarrow>
   wizard_customButton_hidden p = (\<not> isCurrentPage p)
   \<and> (wizard_navigationValidator p = LoginSelectorValidator) = isCurrentPage p"
proof (induction rule: reachable.induct)
  case (entered ext p)
  show ?case by (simp add: onPageEnter_lifecycle)
next
  case (left p)
  show ?case by (simp add: onPageLeave_lifecycle)
next
  case (navigationAsked p ext validator pageChangeInfo)
  then show ?case by (simp add: registered_lifecycle)
qed simp_all

text \<open>
  C10. \<^verbatim>\<open>onPageEnter\<close> shows the validate button and marks the page current,
  \<^verbatim>\<open>onPageLeave\<close> hides the button and marks the page not current, and in every state
  from the first lifecycle hook on the button is hidden exactly when the page is not the
  current page.
\<close>

theorem validate_button_hidden_iff_not_current:
  "\<not> wizard_customButton_hidden (onPageEnter ext q) \<and> isCurrentPage (onPageEnter ext q)
   \<and> wizard_customButton_hidden (onPageLeave q) \<and> \<not> isCurrentPage (onPageLeave q)
   \<and> (reachable p \<longrightarrow> wizard_customButton_hidden p = (\<not> isCurrentPage p))"
  by (simp add: onPageEnter_lifecycle onPageLeave_lifecycle reachable_lifecycle)

theorem validate_button_hidden_iff_not_current_witness:
  "reachable (validateLoginPreMigration (onPageEnter exampleCollaborators examplePage))
   \<and> isCurrentPage (validateLoginPreMigration (onPageEnter exampleCollaborators examplePage))
   \<and> \<not> wizard_customButton_hidden
         (validateLoginPreMigration (onPageEnter exampleCollaborators examplePage))
   \<and> reachable (onPageLeave (onPageEnter exampleCollaborators examplePage))
   \<and> \<not> isCurrentPage (onPageLeave (onPageEnter exampleCollaborators examplePage))
   \<and> wizard_customButton_hidden (onPageLeave (onPageEnter exampleCollaborators examplePage))"
proof -
  have r1: "reachable (validateLoginPreMigration (onPageEnter exampleCollaborators examplePage))"
    by (intro reachable.validateClicked reachable.entered)
  have r2: "reachable (onPageLeave (onPageEnter exampleCollaborators examplePage))"
    by (rule reachable.left)
  have current: "isCurrentPage (validateLoginPreMigration (onPageEnter exampleCollaborators examplePage))"
    by code_simp
  have notCurrent: "\<not> isCurrentPage (onPageLeave (onPageEnter exampleCollaborators examplePage))"
    by code_simp
  from validate_button_hidden_iff_not_current
         [of exampleCollaborators examplePage
             "validateLoginPreMigration (onPageEnter exampleCollaborators examplePage)"]
       validate_button_hidden_iff_not_current
         [of exampleCollaborators examplePage
             "onPageLeave (onPageEnter exampleCollaborators examplePage)"]
       r1 r2 current notCurrent
  show ?thesis by simp
qed

subsection \<open>The navigation validator\<close>

lemma selectedLogins_message [simp]:
  "selectedLogins (p\<lparr>wizard_message := m\<rparr>) = selectedLogins p"
  by (simp add: selectedLogins_def)

lemma isAllSelectedLoginsValidated_message [simp]:
  "isAllSelectedLoginsValidated (p\<lparr>wizard_message := m\<rparr>) = isAllSelectedLoginsValidated p"
  by (simp add: isAllSelectedLoginsValidated_def)

lemma navigationValidator_backward:
  "newPage info < lastPage info \<Longrightarrow> fst (navigationValidator ext info p)"
  by (simp add: navigationValidator_def Let_def)

lemma navigationValidator_forward:
  assumes "\<not> newPage info < lastPage info" and "fst (navigationValidator ext info p)"
  shows "selectedLogins p \<noteq> []"
    and "isLoginMigrationTargetValidated (migrationStateModel p)"
    and "isAllSelectedLoginsValidated p"
    and "model_selectedWindowsLogins ext (loginMigrationModel (migrationStateModel p)) \<Longrightarrow>
         truthy (aadDomainName (migrationStateModel p))
         \<and> successfullyValidatedEntraDomain p = aadDomainName (migrationStateModel p)"
  using assms by (auto simp: navigationValidator_def Let_def split: if_splits)

text \<open>
  C4. While the page is current, the validator registered on page entry is the one the
  wizard asks. It permits every backward navigation, and it permits a navigation that is not
  backward only if a login is selected, the login migration target is validated, the name of
  every selected login is among the successfully validated logins and, when windows logins
  are selected, a non-empty domain name equal to the last successfully validated domain has
  been entered.
\<close>

theorem navigation_validator_gate:
  "reachable p \<Longrightarrow> isCurrentPage p \<Longrightarrow>
   registeredValidator ext p = Some (navigationValidator ext)
   \<and> (newPage info < lastPage info \<longrightarrow> fst (navigationValidator ext info p))
   \<and> (\<not> newPage info < lastPage info \<and> fst (navigationValidator ext info p) \<longrightarrow>
        selectedLogins p \<noteq> []
        \<and> isLoginMigrationTargetValidated (migrationStateModel p)
        \<and> (\<forall>login \<in> set (selectedLogins p). loginName login \<in> successfullyValidatedLogins p)
        \<and> (model_selectedWindowsLogins ext (loginMigrationModel (migrationStateModel p)) \<longrightarrow>
             (\<exists>domain. domain \<noteq> []
                \<and> aadDomainName (migrationStateModel p) = Some domain
                \<and> successfullyValidatedEntraDomain p = Some domain)))"
proof -
  assume reach: "reachable p" and current: "isCurrentPage p"
  from reachable_lifecycle [OF reach] current
  have "wizard_navigationValidator p = LoginSelectorValidator" by simp
  then have registered: "registeredValidator ext p = Some (navigationValidator ext)"
    by (simp add: registeredValidator_def)
  have forward:
    "selectedLogins p \<noteq> []
     \<and> isLoginMigrationTargetValidated (migrationStateModel p)
     \<and> (\<forall>login \<in> set (selectedLogins p). loginName login \<in> successfullyValidatedLogins p)
     \<and> (model_selectedWindowsLogins ext (loginMigrationModel (migrationStateModel p)) \<longrightarrow>
          (\<exists>domain. domain \<noteq> []
             \<and> aadDomainName (migrationStateModel p) = Some domain
             \<and> successfullyValidatedEntraDomain p = Some domain))"
    if fw: "\<not> newPage info < lastPage info" and ok: "fst (navigationValidator ext info p)"
  proof -
    note facts = navigationValidator_forward [OF fw ok]
    have "\<forall>login \<in> set (selectedLogins p). loginName login \<in> successfullyValidatedLogins p"
      using facts(3) by (simp add: isAllSelectedLoginsValidated_def list_all_iff)
    moreover have "\<exists>domain. domain \<noteq> []
             \<and> aadDomainName (migrationStateModel p) = Some domain
             \<and> successfullyValidatedEntraDomain p = Some domain"
      if "model_selectedWindowsLogins ext (loginMigrationModel (migrationStateModel p))"
      using facts(4) [OF that] by (auto simp: truthy_def split: option.splits)
    ultimately show ?thesis using facts(1,2) by blast
  qed
  show ?thesis
    using registered navigationValidator_backward forward by blast
qed

theorem navigation_validator_gate_witness:
  "reachable (onPageEnter exampleCollaborators exampleWindowsPage)
   \<and> isCurrentPage (onPageEnter exampleCollaborators exampleWindowsPage)
   \<and> fst (navigationValidator exampleCollaborators \<lparr>lastPage = 1, newPage = 2\<rparr>
           (onPageEnter exampleCollaborators exampleWindowsPage))
   \<and> selectedLogins (onPageEnter exampleCollaborators exampleWindowsPage) \<noteq> []
   \<and> model_selectedWindowsLogins exampleCollaborators
         (loginMigrationModel (migrationStateModel
            (onPageEnter exampleCollaborators exampleWindowsPage)))
   \<and> (\<exists>domain. domain \<noteq> []
         \<and> aadDomainName (migrationStateModel
              (onPageEnter exampleCollaborators exampleWindowsPage)) = Some domain
         \<and> successfullyValidatedEntraDomain
              (onPageEnter exampleCollaborators exampleWindowsPage) = Some domain)"
proof -
  have reach: "reachable (onPageEnter exampleCollaborators exampleWindowsPage)"
    by (rule reachable.entered)
  have current: "isCurrentPage (onPageEnter exampleCollaborators exampleWindowsPage)"
    by code_simp
  have permitted:
    "fst (navigationValidator exampleCollaborators \<lparr>lastPage = 1, newPage = 2\<rparr>
            (onPageEnter exampleCollaborators exampleWindowsPage))"
    by code_simp
  have windows:
    "model_selectedWindowsLogins exampleCollaborators
       (loginMigrationModel (migrationStateModel
          (onPageEnter exampleCollaborators exampleWindowsPage)))"
    by code_simp
  from navigation_validator_gate
         [OF reach current, of exampleCollaborators "\<lparr>lastPage = 1, newPage = 2\<rparr>"]
       reach current permitted windows
  show ?thesis by simp
qed

subsection \<open>The domain name input\<close>

text \<open>
  C9. After a selection change is handled, the container of the domain name input is
  displayed exactly when \<^verbatim>\<open>selectedWindowsLogins\<close> is true of the selection, and the
  height of the login table is 600 when it is displayed and 650, which is larger, when it is
  hidden.
\<close>

theorem aad_input_shown_iff_windows_logins_selected:
  "aadDomainNameContainer_display (updateValuesOnSelection ext p) =
     model_selectedWindowsLogins ext
       (loginMigrationModel (migrationStateModel (updateValuesOnSelection ext p)))
   \<and> loginSelectorTable_height (updateValuesOnSelection ext p) =
     HeightNumber (if aadDomainNameContainer_display (updateValuesOnSelection ext p)
                   then 600 else 650)
   \<and> (600 :: nat) < 650"
  by (simp add: updateValuesOnSelection_def refreshAADInputBox_def updateNextButton_def
      updateControlDisplay_def Let_def)

theorem aad_input_shown_iff_windows_logins_selected_witness:
  "aadDomainNameContainer_display
     (updateValuesOnSelection exampleCollaborators
        (exampleShownPage\<lparr>loginSelectorTable_selectedRows := Some [1]\<rparr>))
   \<and> loginSelectorTable_height
       (updateValuesOnSelection exampleCollaborators
          (exampleShownPage\<lparr>loginSelectorTable_selectedRows := Some [1]\<rparr>)) = HeightNumber 600
   \<and> \<not> aadDomainNameContainer_display
         (updateValuesOnSelection exampleCollaborators
            (exampleShownPage\<lparr>loginSelectorTable_selectedRows := Some [0]\<rparr>))
   \<and> loginSelectorTable_height
       (updateValuesOnSelection exampleCollaborators
          (exampleShownPage\<lparr>loginSelectorTable_selectedRows := Some [0]\<rparr>)) = HeightNumber 650"
proof -
  have windows:
    "model_selectedWindowsLogins exampleCollaborators
       (loginMigrationModel (migrationStateModel
          (updateValuesOnSelection exampleCollaborators
             (exampleShownPage\<lparr>loginSelectorTable_selectedRows := Some [1]\<rparr>))))"
    by code_simp
  have sql:
    "\<not> model_selectedWindowsLogins exampleCollaborators
       (loginMigrationModel (migrationStateModel
          (updateValuesOnSelection exampleCollaborators
             (exampleShownPage\<lparr>loginSelectorTable_selectedRows := Some [0]\<rparr>))))"
    by code_simp
  from aad_input_shown_iff_windows_logins_selected
         [of exampleCollaborators "exampleShownPage\<lparr>loginSelectorTable_selectedRows := Some [1]\<rparr>"]
       aad_input_shown_iff_windows_logins_selected
         [of exampleCollaborators "exampleShownPage\<lparr>loginSelectorTable_selectedRows := Some [0]\<rparr>"]
       windows sql
  show ?thesis by simp
qed

subsection \<open>The log of a refresh\<close>

lemma updateNextButton_log [simp]: "log (updateNextButton p) = log p"
  by (simp add: updateNextButton_def)

lemma refreshAADInputBox_log [simp]: "log (refreshAADInputBox ext p) = log p"
  by (simp add: refreshAADInputBox_def Let_def)

lemma updateValuesOnSelection_log [simp]: "log (updateValuesOnSelection ext p) = log p"
  by (simp add: updateValuesOnSelection_def Let_def)

lemma filterTableList_log [simp]: "log (filterTableList ext value selectedList p) = log p"
  by (simp add: filterTableList_def Let_def)

lemma filterSystemTableList_log [simp]: "log (filterSystemTableList ext value p) = log p"
  by (simp add: filterSystemTableList_def Let_def)

lemma markRefreshDataStart_log [simp]: "log (markRefreshDataStart p) = log p"
  by (simp add: markRefreshDataStart_def)

lemma markRefreshDataComplete_log [simp]: "log (markRefreshDataComplete n m p) = log p"
  by (simp add: markRefreshDataComplete_def)

lemma getSourceLogins_log:
  "\<exists>events. log (getSourceLogins ext p) = log p @ events
     \<and> filter isFetchEvent events = [Started SourceLogins, Settled SourceLogins]"
  by (simp add: getSourceLogins_def Let_def split: prod.splits option.splits)

lemma getTargetLogins_log:
  "\<exists>events. log (getTargetLogins ext p) = log p @ events
     \<and> (filter isFetchEvent events = [] \<or>
        filter isFetchEvent events = [Started TargetLogins, Settled TargetLogins])"
  by (simp add: getTargetLogins_def Let_def split: sum.splits)

lemma loadLoginList_log:
  "log (loadLoginList ext runQuery p) =
     log (let p1 = (if runQuery
                   \<or> \<not> collectedSourceLogins (loginMigrationModel (migrationStateModel p))
                then getSourceLogins ext (markRefreshDataStart p)
                else p)
          in if runQuery
                   \<or> \<not> collectedTargetLogins (loginMigrationModel (migrationStateModel p1))
                then getTargetLogins ext (markRefreshDataStart p1)
                else p1)"
  by (simp add: loadLoginList_def Let_def)

text \<open>
  C6. In every call of \<^verbatim>\<open>_loadLoginList\<close> the fetch events that the call adds to the log
  are one of four sequences: none; the source fetch started and settled; the target fetch
  started and settled; or the source fetch started and settled, then the target fetch
  started and settled. So each fetch starts at most once, the source fetch has settled
  before the target fetch starts, and every fetch that starts settles.
\<close>

theorem fetches_in_sequence_at_most_once:
  "\<exists>events. log (loadLoginList ext runQuery p) = log p @ events
     \<and> filter isFetchEvent events \<in> set
         [[],
          [Started SourceLogins, Settled SourceLogins],
          [Started TargetLogins, Settled TargetLogins],
          [Started SourceLogins, Settled SourceLogins, Started TargetLogins, Settled TargetLogins]]"
proof -
  define p1 where "p1 = (if runQuery
                   \<or> \<not> collectedSourceLogins (loginMigrationModel (migrationStateModel p))
                then getSourceLogins ext (markRefreshDataStart p)
                else p)"
  define p2 where "p2 = (if runQuery
                   \<or> \<not> collectedTargetLogins (loginMigrationModel (migrationStateModel p1))
                then getTargetLogins ext (markRefreshDataStart p1)
                else p1)"
  have whole: "log (loadLoginList ext runQuery p) = log p2"
    by (simp add: loadLoginList_log p1_def p2_def Let_def)
  obtain es where es: "log p1 = log p @ es"
    and esf: "filter isFetchEvent es = [] \<or>
              filter isFetchEvent es = [Started SourceLogins, Settled SourceLogins]"
  proof (cases "runQuery
                   \<or> \<not> collectedSourceLogins (loginMigrationModel (migrationStateModel p))")
    case True
    with getSourceLogins_log [of ext "markRefreshDataStart p"] that show ?thesis
      by (auto simp: p1_def)
  next
    case False
    with that [of "[]"] show ?thesis by (simp add: p1_def)
  qed
  obtain et where et: "log p2 = log p1 @ et"
    and etf: "filter isFetchEvent et = [] \<or>
              filter isFetchEvent et = [Started TargetLogins, Settled TargetLogins]"
  proof (cases "runQuery
                   \<or> \<not> collectedTargetLogins (loginMigrationModel (migrationStateModel p1))")
    case True
    with getTargetLogins_log [of ext "markRefreshDataStart p1"] that show ?thesis
      by (auto simp: p2_def)
  next
    case False
    with that [of "[]"] show ?thesis by (simp add: p2_def)
  qed
  have "log (loadLoginList ext runQuery p) = log p @ (es @ et)"
    by (simp add: whole es et)
  moreover have "filter isFetchEvent (es @ et) \<in> set
         [[],
          [Started SourceLogins, Settled SourceLogins],
          [Started TargetLogins, Settled TargetLogins],
          [Started SourceLogins, Settled SourceLogins, Started TargetLogins, Settled TargetLogins]]"
    using esf etf by auto
  ultimately show ?thesis by blast
qed

theorem fetches_in_sequence_at_most_once_witness:
  "log (loadLoginList failingCollaborators True examplePage) =
     [Started SourceLogins, Settled SourceLogins,
      LogError ''LoginMigrationWizard'' ''CollectingSourceLoginsFailed'' (JsError ''Login timeout''),
      SendSqlMigrationActionEvent ''LoginMigrationSelectorPage'' ''LoginMigrationError''
        [(''errorMessage'', ''CollectingSourceLoginsFailed'')] [],
      Started TargetLogins, Settled TargetLogins,
      LogError ''LoginMigrationWizard'' ''CollectingTargetLoginsFailed'' (JsError ''Login timeout''),
      SendSqlMigrationActionEvent ''LoginMigrationSelectorPage'' ''LoginMigrationError''
        [(''errorMessage'', ''CollectingTargetLoginsFailed'')] []]
   \<and> filter isFetchEvent (log (loadLoginList failingCollaborators True examplePage)) \<in> set
       [[],
        [Started SourceLogins, Settled SourceLogins],
        [Started TargetLogins, Settled TargetLogins],
        [Started SourceLogins, Settled SourceLogins, Started TargetLogins, Settled TargetLogins]]"
proof -
  have before: "log examplePage = []"
    by (simp add: examplePage_def)
  have after: "log (loadLoginList failingCollaborators True examplePage) =
     [Started SourceLogins, Settled SourceLogins,
      LogError ''LoginMigrationWizard'' ''CollectingSourceLoginsFailed'' (JsError ''Login timeout''),
      SendSqlMigrationActionEvent ''LoginMigrationSelectorPage'' ''LoginMigrationError''
        [(''errorMessage'', ''CollectingSourceLoginsFailed'')] [],
      Started TargetLogins, Settled TargetLogins,
      LogError ''LoginMigrationWizard'' ''CollectingTargetLoginsFailed'' (JsError ''Login timeout''),
      SendSqlMigrationActionEvent ''LoginMigrationSelectorPage'' ''LoginMigrationError''
        [(''errorMessage'', ''CollectingTargetLoginsFailed'')] []]"
    by code_simp
  from fetches_in_sequence_at_most_once [of failingCollaborators True examplePage]
  obtain events where
    "log (loadLoginList failingCollaborators True examplePage) = log examplePage @ events"
    and "filter isFetchEvent events \<in> set
       [[],
        [Started SourceLogins, Settled SourceLogins],
        [Started TargetLogins, Settled TargetLogins],
        [Started SourceLogins, Settled SourceLogins, Started TargetLogins, Settled TargetLogins]]"
    by blast
  with before have "filter isFetchEvent (log (loadLoginList failingCollaborators True examplePage))
     \<in> set
       [[],
        [Started SourceLogins, Settled SourceLogins],
        [Started TargetLogins, Settled TargetLogins],
        [Started SourceLogins, Settled SourceLogins, Started TargetLogins, Settled TargetLogins]]"
    by simp
  with after show ?thesis by blast
qed

text \<open>
  C3. When the source login query throws, \<^verbatim>\<open>_getSourceLogins\<close> returns normally: it
  sets the style of the refresh info box to \<open>error\<close> and its text to the failure text,
  sets a wizard message of level error whose description carries the message of the thrown
  error, logs the error, sends one telemetry error event, and has called the query once.
  \<^verbatim>\<open>_getTargetLogins\<close> does the same when the target login query throws.
\<close>

theorem query_errors_are_caught_and_reported:
  "(api_getSourceLogins ext (migrationStateModel p) = (stateMachine', Some error) \<longrightarrow>
      refreshResultsInfoBox_style (getSourceLogins ext p) = ''error''
      \<and> refreshResultsInfoBox_text (getSourceLogins ext p)
          = LOGIN_MIGRATION_REFRESH_SOURCE_LOGIN_DATA_FAILED
      \<and> wizard_message (getSourceLogins ext p)
          = \<lparr>msgText = LOGIN_MIGRATIONS_GET_LOGINS_ERROR_TITLE ''source'', msgLevel = Error,
             msgDescription = Some (LOGIN_MIGRATIONS_GET_LOGINS_ERROR (message error))\<rparr>
      \<and> log (getSourceLogins ext p)
          = log p @
            [Started SourceLogins, Settled SourceLogins,
             LogError ''LoginMigrationWizard'' ''CollectingSourceLoginsFailed'' error,
             SendSqlMigrationActionEvent ''LoginMigrationSelectorPage'' ''LoginMigrationError''
               [(''errorMessage'', ''CollectingSourceLoginsFailed'')] []]
      \<and> length (filter isTelemetryErrorEvent (drop (length (log p)) (log (getSourceLogins ext p)))) = 1
      \<and> count_list (drop (length (log p)) (log (getSourceLogins ext p))) (Started SourceLogins) = 1)
   \<and> (isTargetInstanceSet (migrationStateModel p)
        \<and> api_collectTargetLogins ext (migrationStateModel p) = Inl error \<longrightarrow>
      refreshResultsInfoBox_style (getTargetLogins ext p) = ''error''
      \<and> refreshResultsInfoBox_text (getTargetLogins ext p)
          = LOGIN_MIGRATION_REFRESH_TARGET_LOGIN_DATA_FAILED
      \<and> wizard_message (getTargetLogins ext p)
          = \<lparr>msgText = LOGIN_MIGRATIONS_GET_LOGINS_ERROR_TITLE ''target'', msgLevel = Error,
             msgDescription = Some (LOGIN_MIGRATIONS_GET_LOGINS_ERROR (message error))\<rparr>
      \<and> log (getTargetLogins ext p)
          = log p @
            [Started TargetLogins, Settled TargetLogins,
             LogError ''LoginMigrationWizard'' ''CollectingTargetLoginsFailed'' error,
             SendSqlMigrationActionEvent ''LoginMigrationSelectorPage'' ''LoginMigrationError''
               [(''errorMessage'', ''CollectingTargetLoginsFailed'')] []]
      \<and> length (filter isTelemetryErrorEvent (drop (length (log p)) (log (getTargetLogins ext p)))) = 1
      \<and> count_list (drop (length (log p)) (log (getTargetLogins ext p))) (Started TargetLogins) = 1)"
  by (simp add: getSourceLogins_def getTargetLogins_def Let_def)

theorem query_errors_are_caught_and_reported_witness:
  "refreshResultsInfoBox_style (getSourceLogins failingCollaborators examplePage) = ''error''
   \<and> wizard_message (getSourceLogins failingCollaborators examplePage)
       = \<lparr>msgText = LOGIN_MIGRATIONS_GET_LOGINS_ERROR_TITLE ''source'', msgLevel = Error,
          msgDescription = Some (LOGIN_MIGRATIONS_GET_LOGINS_ERROR ''Login timeout'')\<rparr>
   \<and> log (getSourceLogins failingCollaborators examplePage)
       = [Started SourceLogins, Settled SourceLogins,
          LogError ''LoginMigrationWizard'' ''CollectingSourceLoginsFailed''
            (JsError ''Login timeout''),
          SendSqlMigrationActionEvent ''LoginMigrationSelectorPage'' ''LoginMigrationError''
            [(''errorMessage'', ''CollectingSourceLoginsFailed'')] []]
   \<and> refreshResultsInfoBox_style (getTargetLogins failingCollaborators examplePage) = ''error''
   \<and> wizard_message (getTargetLogins failingCollaborators examplePage)
       = \<lparr>msgText = LOGIN_MIGRATIONS_GET_LOGINS_ERROR_TITLE ''target'', msgLevel = Error,
          msgDescription = Some (LOGIN_MIGRATIONS_GET_LOGINS_ERROR ''Login timeout'')\<rparr>
   \<and> log (getTargetLogins failingCollaborators examplePage)
       = [Started TargetLogins, Settled TargetLogins,
          LogError ''LoginMigrationWizard'' ''CollectingTargetLoginsFailed''
            (JsError ''Login timeout''),
          SendSqlMigrationActionEvent ''LoginMigrationSelectorPage'' ''LoginMigrationError''
            [(''errorMessage'', ''CollectingTargetLoginsFailed'')] []]"
proof -
  have sourceThrows:
    "api_getSourceLogins failingCollaborators (migrationStateModel examplePage)
     = (exampleStateModel, Some (JsError ''Login timeout''))"
    by (simp add: failingCollaborators_def examplePage_def)
  have targetSet: "isTargetInstanceSet (migrationStateModel examplePage)"
    by (simp add: isTargetInstanceSet_def truthy_def examplePage_def exampleStateModel_def)
  have targetThrows:
    "api_collectTargetLogins failingCollaborators (migrationStateModel examplePage)
     = Inl (JsError ''Login timeout'')"
    by (simp add: failingCollaborators_def)
  have before: "log examplePage = []"
    by (simp add: examplePage_def)
  from query_errors_are_caught_and_reported
         [of failingCollaborators examplePage exampleStateModel "JsError ''Login timeout''"]
       sourceThrows targetSet targetThrows before
  show ?thesis by simp
qed

subsection \<open>Selection across filtering\<close>

lemma updateNextButton_selectedRows [simp]:
  "loginSelectorTable_selectedRows (updateNextButton p) = loginSelectorTable_selectedRows p"
  by (simp add: updateNextButton_def)

lemma refreshAADInputBox_selectedRows [simp]:
  "loginSelectorTable_selectedRows (refreshAADInputBox ext p) = loginSelectorTable_selectedRows p"
  by (simp add: refreshAADInputBox_def Let_def)

lemma updateValuesOnSelection_selectedRows [simp]:
  "loginSelectorTable_selectedRows (updateValuesOnSelection ext p) = loginSelectorTable_selectedRows p"
  by (simp add: updateValuesOnSelection_def Let_def)

lemma selectedLogins_filterTableValue [simp]:
  "selectedLogins (p\<lparr>filterTableValue := v\<rparr>) = selectedLogins p"
  by (simp add: selectedLogins_def)

lemma filterTableList_selectedRows:
  "loginSelectorTable_selectedRows (filterTableList ext value selectedList p) =
     Some (filter
             (\<lambda>rowIdx. \<exists>login \<in> set (case selectedList of Some l \<Rightarrow> l | None \<Rightarrow> selectedLogins p).
                 equalIgnoringCase (js_toLowerCase ext) (loginName login)
                   (c1 (loginSelectorTable_data (filterTableList ext value selectedList p) ! rowIdx)))
             [0 ..< length (loginSelectorTable_data (filterTableList ext value selectedList p))])"
  by (cases selectedList) (simp_all add: filterTableList_def Let_def list_ex_iff equalIgnoringCase_def)

text \<open>
  C8. After \<^verbatim>\<open>_filterTableList\<close> has run, a displayed row is marked selected exactly when
  its login name equals, with case ignored, the name of a login of the selection in effect
  before filtering: the selected list that was passed, or else the selection of the table.
  No index beyond the displayed rows is marked. This holds whatever the lower-casing of the
  platform is.
\<close>

theorem filter_keeps_selection_by_login_name:
  "(i < length (loginSelectorTable_data (filterTableList ext value selectedList p)) \<longrightarrow>
      rowMarkedSelected (filterTableList ext value selectedList p) i =
        (\<exists>login \<in> set (case selectedList of Some l \<Rightarrow> l | None \<Rightarrow> selectedLogins p).
           equalIgnoringCase (js_toLowerCase ext) (loginName login)
             (c1 (loginSelectorTable_data (filterTableList ext value selectedList p) ! i))))
   \<and> (rowMarkedSelected (filterTableList ext value selectedList p) i \<longrightarrow>
        i < length (loginSelectorTable_data (filterTableList ext value selectedList p)))"
  by (auto simp add: rowMarkedSelected_def filterTableList_selectedRows)

theorem filter_keeps_selection_by_login_name_witness:
  "joseUpper \<noteq> joseLower
   \<and> selectedLogins exampleShownPage
       = [\<lparr>loginName = ''sa'', loginType = ''sql_login'', defaultDatabaseName = ''master'',
           status = None\<rparr>]
   \<and> loginSelectorTable_data
       (filterTableList exampleCollaborators (Some ''MOD'')
          (Some [\<lparr>loginName = joseUpper, loginType = ''sql_login'',
                  defaultDatabaseName = ''model'', status = None\<rparr>])
          exampleShownPage) = [exampleRows ! 2]
   \<and> rowMarkedSelected
       (filterTableList exampleCollaborators (Some ''MOD'')
          (Some [\<lparr>loginName = joseUpper, loginType = ''sql_login'',
                  defaultDatabaseName = ''model'', status = None\<rparr>])
          exampleShownPage) 0
   \<and> equalIgnoringCase (js_toLowerCase exampleCollaborators) joseUpper (c1 (exampleRows ! 2))
   \<and> loginSelectorTable_data
       (filterTableList exampleCollaborators (Some ''MOD'') None exampleShownPage)
       = [exampleRows ! 2]
   \<and> \<not> rowMarkedSelected
         (filterTableList exampleCollaborators (Some ''MOD'') None exampleShownPage) 0
   \<and> \<not> equalIgnoringCase (js_toLowerCase exampleCollaborators) ''sa'' (c1 (exampleRows ! 2))"
proof -
  have differ: "joseUpper \<noteq> joseLower"
    by (simp add: joseUpper_def joseLower_def)
  have before:
    "selectedLogins exampleShownPage
     = [\<lparr>loginName = ''sa'', loginType = ''sql_login'', defaultDatabaseName = ''master'',
         status = None\<rparr>]"
    by code_simp
  have shown:
    "loginSelectorTable_data
       (filterTableList exampleCollaborators (Some ''MOD'')
          (Some [\<lparr>loginName = joseUpper, loginType = ''sql_login'',
                  defaultDatabaseName = ''model'', status = None\<rparr>])
          exampleShownPage) = [exampleRows ! 2]"
    by code_simp
  have marked:
    "rowMarkedSelected
       (filterTableList exampleCollaborators (Some ''MOD'')
          (Some [\<lparr>loginName = joseUpper, loginType = ''sql_login'',
                  defaultDatabaseName = ''model'', status = None\<rparr>])
          exampleShownPage) 0"
    by code_simp
  have shownOwn:
    "loginSelectorTable_data
       (filterTableList exampleCollaborators (Some ''MOD'') None exampleShownPage)
     = [exampleRows ! 2]"
    by code_simp
  have unmarked:
    "\<not> rowMarkedSelected
         (filterTableList exampleCollaborators (Some ''MOD'') None exampleShownPage) 0"
    by code_simp
  from filter_keeps_selection_by_login_name
         [of 0 exampleCollaborators "Some ''MOD''"
             "Some [\<lparr>loginName = joseUpper, loginType = ''sql_login'',
                      defaultDatabaseName = ''model'', status = None\<rparr>]"
             exampleShownPage]
       filter_keeps_selection_by_login_name
         [of 0 exampleCollaborators "Some ''MOD''" None exampleShownPage]
       differ before shown marked shownOwn unmarked
  show ?thesis by simp
qed

subsection \<open>The rows that a refresh builds\<close>

lemma updateNextButton_model [simp]:
  "migrationStateModel (updateNextButton p) = migrationStateModel p"
  "loginTableValues (updateNextButton p) = loginTableValues p"
  "systemLoginTableValues (updateNextButton p) = systemLoginTableValues p"
  by (simp_all add: updateNextButton_def)

lemma refreshAADInputBox_model [simp]:
  "migrationStateModel (refreshAADInputBox ext p) = migrationStateModel p"
  "loginTableValues (refreshAADInputBox ext p) = loginTableValues p"
  "systemLoginTableValues (refreshAADInputBox ext p) = systemLoginTableValues p"
  by (simp_all add: refreshAADInputBox_def Let_def)

lemma updateValuesOnSelection_logins [simp]:
  "loginsOnSource (loginMigrationModel (migrationStateModel (updateValuesOnSelection ext p)))
     = loginsOnSource (loginMigrationModel (migrationStateModel p))"
  "systemLoginsOnSource (loginMigrationModel (migrationStateModel (updateValuesOnSelection ext p)))
     = systemLoginsOnSource (loginMigrationModel (migrationStateModel p))"
  "loginsOnTarget (loginMigrationModel (migrationStateModel (updateValuesOnSelection ext p)))
     = loginsOnTarget (loginMigrationModel (migrationStateModel p))"
  "loginTableValues (updateValuesOnSelection ext p) = loginTableValues p"
  "systemLoginTableValues (updateValuesOnSelection ext p) = systemLoginTableValues p"
  by (simp_all add: updateValuesOnSelection_def Let_def)

lemma filterTableList_logins [simp]:
  "loginsOnSource (loginMigrationModel (migrationStateModel (filterTableList ext value selectedList p)))
     = loginsOnSource (loginMigrationModel (migrationStateModel p))"
  "systemLoginsOnSource (loginMigrationModel (migrationStateModel (filterTableList ext value selectedList p)))
     = systemLoginsOnSource (loginMigrationModel (migrationStateModel p))"
  "loginsOnTarget (loginMigrationModel (migrationStateModel (filterTableList ext value selectedList p)))
     = loginsOnTarget (loginMigrationModel (migrationStateModel p))"
  "loginTableValues (filterTableList ext value selectedList p) = loginTableValues p"
  "systemLoginTableValues (filterTableList ext value selectedList p) = systemLoginTableValues p"
  by (simp_all add: filterTableList_def Let_def)

lemma filterSystemTableList_model [simp]:
  "migrationStateModel (filterSystemTableList ext value p) = migrationStateModel p"
  "loginTableValues (filterSystemTableList ext value p) = loginTableValues p"
  "systemLoginTableValues (filterSystemTableList ext value p) = systemLoginTableValues p"
  by (simp_all add: filterSystemTableList_def Let_def)

lemma markRefreshDataComplete_model [simp]:
  "migrationStateModel (markRefreshDataComplete n m p) = migrationStateModel p"
  "loginTableValues (markRefreshDataComplete n m p) = loginTableValues p"
  "systemLoginTableValues (markRefreshDataComplete n m p) = systemLoginTableValues p"
  by (simp_all add: markRefreshDataComplete_def)

lemma loadLoginList_tables:
  "loginTableValues (loadLoginList ext runQuery p) =
       Some (map (loginTableRow ext
                    (case loginsForMigration (loginMigrationModel (migrationStateModel p)) of
                       None \<Rightarrow> []
                     | Some l \<Rightarrow> l)
                    (loginsOnTarget (loginMigrationModel (migrationStateModel
                       (loadLoginList ext runQuery p)))))
               (loginsOnSource (loginMigrationModel (migrationStateModel
                  (loadLoginList ext runQuery p)))))"
  "systemLoginTableValues (loadLoginList ext runQuery p) =
       Some (map (systemLoginTableRow ext
                    (loginsOnTarget (loginMigrationModel (migrationStateModel
                       (loadLoginList ext runQuery p)))))
               (systemLoginsOnSource (loginMigrationModel (migrationStateModel
                  (loadLoginList ext runQuery p)))))"
  by (simp_all add: loadLoginList_def Let_def)

lemma isLoginOnTarget_iff:
  "isLoginOnTarget ext targetLogins name =
     (\<exists>t \<in> set targetLogins. equalIgnoringCase (js_toLowerCase ext) t name)"
  by (simp add: isLoginOnTarget_def list_ex_iff equalIgnoringCase_def)

text \<open>
  C5. After \<^verbatim>\<open>_loadLoginList\<close> there is one stored row for every source login, in each
  of the two tables, and the target status cell of a row is the marker for "exists on the
  target" exactly when some collected target login name equals the login name of the row
  with case ignored; otherwise it is the marker for "does not exist". This holds whatever
  the lower-casing of the platform and the two marker helpers are.
\<close>

theorem target_marker_iff_login_on_target:
  "map c1 (storedLoginRows (loadLoginList ext runQuery p)) =
     map loginName (loginsOnSource (loginMigrationModel (migrationStateModel
       (loadLoginList ext runQuery p))))
   \<and> map s0 (storedSystemLoginRows (loadLoginList ext runQuery p)) =
     map loginName (systemLoginsOnSource (loginMigrationModel (migrationStateModel
       (loadLoginList ext runQuery p))))
   \<and> (\<forall>row \<in> set (storedLoginRows (loadLoginList ext runQuery p)).
        c5 row = targetMarker ext
          (\<exists>t \<in> set (loginsOnTarget (loginMigrationModel (migrationStateModel
                        (loadLoginList ext runQuery p)))).
             equalIgnoringCase (js_toLowerCase ext) t (c1 row)))
   \<and> (\<forall>row \<in> set (storedSystemLoginRows (loadLoginList ext runQuery p)).
        s4 row = targetMarker ext
          (\<exists>t \<in> set (loginsOnTarget (loginMigrationModel (migrationStateModel
                        (loadLoginList ext runQuery p)))).
             equalIgnoringCase (js_toLowerCase ext) t (s0 row)))"
  by (auto simp add: storedLoginRows_def storedSystemLoginRows_def loadLoginList_tables
      loginTableRow_def systemLoginTableRow_def Let_def targetMarker_def isLoginOnTarget_iff
      comp_def)

theorem target_marker_iff_login_on_target_witness:
  "map c1 (storedLoginRows (loadLoginList exampleCollaborators True examplePage))
     = [''sa'', ''CORP/bob'', joseLower]
   \<and> loginsOnTarget (loginMigrationModel (migrationStateModel
        (loadLoginList exampleCollaborators True examplePage))) = [''SA'', joseUpper]
   \<and> ''SA'' \<noteq> ''sa'' \<and> joseUpper \<noteq> joseLower
   \<and> targetMarker exampleCollaborators True \<noteq> targetMarker exampleCollaborators False
   \<and> c5 (exampleRows ! 0) = targetMarker exampleCollaborators True
   \<and> c5 (exampleRows ! 1) = targetMarker exampleCollaborators False
   \<and> c5 (exampleRows ! 2) = targetMarker exampleCollaborators True
   \<and> s4 (exampleSystemRows ! 0) = targetMarker exampleCollaborators False"
proof -
  have rows: "storedLoginRows (loadLoginList exampleCollaborators True examplePage) = exampleRows"
    by code_simp
  have systemRows:
    "storedSystemLoginRows (loadLoginList exampleCollaborators True examplePage)
     = exampleSystemRows"
    by code_simp
  have targets:
    "loginsOnTarget (loginMigrationModel (migrationStateModel
       (loadLoginList exampleCollaborators True examplePage))) = [''SA'', joseUpper]"
    by code_simp
  have sources:
    "map loginName (loginsOnSource (loginMigrationModel (migrationStateModel
       (loadLoginList exampleCollaborators True examplePage))))
     = [''sa'', ''CORP/bob'', joseLower]"
    by code_simp
  have differ: "joseUpper \<noteq> joseLower"
    by (simp add: joseUpper_def joseLower_def)
  have markers:
    "targetMarker exampleCollaborators True \<noteq> targetMarker exampleCollaborators False"
    by (simp add: targetMarker_def exampleCollaborators_def)
  have sa: "equalIgnoringCase (js_toLowerCase exampleCollaborators) ''SA'' ''sa''"
    and jose: "equalIgnoringCase (js_toLowerCase exampleCollaborators) joseUpper joseLower"
    and bob:
      "\<not> equalIgnoringCase (js_toLowerCase exampleCollaborators) ''SA'' ''CORP/bob''"
      "\<not> equalIgnoringCase (js_toLowerCase exampleCollaborators) joseUpper ''CORP/bob''"
    and policy:
      "\<not> equalIgnoringCase (js_toLowerCase exampleCollaborators) ''SA'' ''##MS_Policy##''"
      "\<not> equalIgnoringCase (js_toLowerCase exampleCollaborators) joseUpper ''##MS_Policy##''"
    by code_simp+
  have names: "c1 (exampleRows ! 0) = ''sa''" "c1 (exampleRows ! 1) = ''CORP/bob''"
    "c1 (exampleRows ! 2) = joseLower" "s0 (exampleSystemRows ! 0) = ''##MS_Policy##''"
    by (simp_all add: exampleRows_def exampleSystemRows_def)
  have members: "exampleRows ! 0 \<in> set exampleRows" "exampleRows ! 1 \<in> set exampleRows"
    "exampleRows ! 2 \<in> set exampleRows" "exampleSystemRows ! 0 \<in> set exampleSystemRows"
    by (simp_all add: exampleRows_def exampleSystemRows_def)
  from target_marker_iff_login_on_target [of exampleCollaborators True examplePage]
  have "\<forall>row \<in> set exampleRows.
          c5 row = targetMarker exampleCollaborators
            (\<exists>t \<in> set [''SA'', joseUpper].
               equalIgnoringCase (js_toLowerCase exampleCollaborators) t (c1 row))"
    and "\<forall>row \<in> set exampleSystemRows.
          s4 row = targetMarker exampleCollaborators
            (\<exists>t \<in> set [''SA'', joseUpper].
               equalIgnoringCase (js_toLowerCase exampleCollaborators) t (s0 row))"
    unfolding rows systemRows targets by blast+
  with members have
    "c5 (exampleRows ! 0) = targetMarker exampleCollaborators
       (\<exists>t \<in> set [''SA'', joseUpper].
          equalIgnoringCase (js_toLowerCase exampleCollaborators) t (c1 (exampleRows ! 0)))"
    "c5 (exampleRows ! 1) = targetMarker exampleCollaborators
       (\<exists>t \<in> set [''SA'', joseUpper].
          equalIgnoringCase (js_toLowerCase exampleCollaborators) t (c1 (exampleRows ! 1)))"
    "c5 (exampleRows ! 2) = targetMarker exampleCollaborators
       (\<exists>t \<in> set [''SA'', joseUpper].
          equalIgnoringCase (js_toLowerCase exampleCollaborators) t (c1 (exampleRows ! 2)))"
    "s4 (exampleSystemRows ! 0) = targetMarker exampleCollaborators
       (\<exists>t \<in> set [''SA'', joseUpper].
          equalIgnoringCase (js_toLowerCase exampleCollaborators) t
            (s0 (exampleSystemRows ! 0)))"
    by blast+
  note cell = this [unfolded names]
  have cells:
    "c5 (exampleRows ! 0) = targetMarker exampleCollaborators True"
    "c5 (exampleRows ! 1) = targetMarker exampleCollaborators False"
    "c5 (exampleRows ! 2) = targetMarker exampleCollaborators True"
    "s4 (exampleSystemRows ! 0) = targetMarker exampleCollaborators False"
    using cell sa jose bob policy by simp_all
  have allNames: "map c1 exampleRows = [''sa'', ''CORP/bob'', joseLower]"
    by (simp add: exampleRows_def)
  show ?thesis
    using rows targets differ markers cells allNames by simp
qed

subsection \<open>The selected logins\<close>

lemma selectedLogins_status_undefined:
  "login \<in> set (selectedLogins p) \<Longrightarrow> status login = None"
  by (auto simp: selectedLogins_def titleOfString_def Let_def)

text \<open>
  C2. \<^verbatim>\<open>selectedLogins\<close> on the loaded example page with the first row selected: the
  record carries the login name, the login type and the default database of the row, but
  its status is \<^verbatim>\<open>undefined\<close>, while the row and the source login it was built from
  have the status \<open>Enabled\<close>.
\<close>

theorem selectedLogins_loses_status:
  "selectedLogins
     ((loadLoginList exampleCollaborators True examplePage)
        \<lparr>loginSelectorTable_selectedRows := Some [0]\<rparr>)
     = [\<lparr>loginName = ''sa'', loginType = ''sql_login'', defaultDatabaseName = ''master'',
         status = None\<rparr>]
   \<and> c4 (loginSelectorTable_data (loadLoginList exampleCollaborators True examplePage) ! 0)
       = ''Enabled''
   \<and> status (loginsOnSource (loginMigrationModel (migrationStateModel
        (loadLoginList exampleCollaborators True examplePage))) ! 0) = ''Enabled''"
  by code_simp

subsection \<open>The validate button\<close>

lemma validateLoginPreMigration_empty:
  "loginsForMigration (loginMigrationModel (migrationStateModel p)) = Some [] \<Longrightarrow>
   validateLoginPreMigration p =
     p\<lparr>wizard_message :=
         \<lparr>msgText = SELECT_LOGIN_TO_CONTINUE, msgLevel = Error, msgDescription = None\<rparr>\<rparr>"
  by (simp add: validateLoginPreMigration_def)

lemma validateLoginPreMigration_nonempty:
  "loginsForMigration (loginMigrationModel (migrationStateModel p)) = Some (login # logins) \<Longrightarrow>
   validateLoginPreMigration p =
     p\<lparr>log := log p @
         [OpenDialog VALIDATION_DIALOG_TITLE (validateLoginMigration (migrationStateModel p))]\<rparr>"
  by (simp add: validateLoginPreMigration_def)

text \<open>
  Every update of the selection assigns \<^verbatim>\<open>loginsForMigration\<close>, and the handlers that
  do not update the selection leave the login migration model alone.
\<close>

lemma updateValuesOnSelection_assigns:
  "loginsForMigration (loginMigrationModel (migrationStateModel (updateValuesOnSelection ext p)))
     = Some (selectedLogins p)"
  by (simp add: updateValuesOnSelection_def Let_def)

lemma filterTableList_assigns:
  "loginsForMigration
     (loginMigrationModel (migrationStateModel (filterTableList ext value selectedList p)))
   \<noteq> None"
  by (simp add: filterTableList_def Let_def updateValuesOnSelection_assigns)

lemma loadLoginList_assigns:
  "loginsForMigration (loginMigrationModel (migrationStateModel (loadLoginList ext runQuery p)))
   \<noteq> None"
  by (simp add: loadLoginList_def Let_def filterTableList_assigns)

lemma onPageEnter_assigns:
  "loginsForMigration (loginMigrationModel (migrationStateModel (onPageEnter ext p))) \<noteq> None"
  by (simp add: onPageEnter_def Let_def loadLoginList_assigns)

lemma validateLoginPreMigration_model [simp]:
  "migrationStateModel (validateLoginPreMigration p) = migrationStateModel p"
  by (simp add: validateLoginPreMigration_def)

lemma onAadDomainNameChanged_model [simp]:
  "loginMigrationModel (migrationStateModel (onAadDomainNameChanged value p))
     = loginMigrationModel (migrationStateModel p)"
  by (simp add: onAadDomainNameChanged_def)

lemma updateValidationResultUI_model [simp]:
  "migrationStateModel (fst (updateValidationResultUI ext initializing p))
     = migrationStateModel p"
  by (auto simp add: updateValidationResultUI_def Let_def
      logLoginMigrationPreValidationSuccessful_def logLoginMigrationPreValidationFailed_def
      split: sum.splits option.splits)

lemma registered_model:
  "registeredValidator ext p = Some validator \<Longrightarrow>
   migrationStateModel (snd (validator info p)) = migrationStateModel p"
  by (auto simp: registeredValidator_def navigationValidator_def Let_def
      split: NavigationValidator.splits)

lemma visible_page_has_selection:
  "reachedByHandlers p \<Longrightarrow>
   \<not> wizard_customButton_hidden p \<longrightarrow>
     loginsForMigration (loginMigrationModel (migrationStateModel p)) \<noteq> None"
proof (induction rule: reachedByHandlers.induct)
  case (entered ext p)
  show ?case by (simp add: onPageEnter_assigns)
next
  case (left p)
  show ?case by (simp add: onPageLeave_lifecycle)
next
  case (searchTextChanged p ext "value")
  show ?case by (simp add: filterTableList_assigns)
next
  case (rowSelected p ext rows)
  show ?case by (simp add: updateValuesOnSelection_assigns)
next
  case (refreshClicked p ext)
  show ?case by (simp add: loadLoginList_assigns)
next
  case (navigationAsked p ext validator pageChangeInfo)
  then show ?case by (simp add: registered_lifecycle registered_model)
qed simp_all

text \<open>
  C7. In every state that the handlers of the page reach and in which the validate button
  is visible, so that it can be clicked, the list of logins selected for migration is
  assigned, and \<^verbatim>\<open>_validateLoginPreMigration\<close> opens the validation dialog only when
  that list is non-empty: with the empty list it sets the wizard error message, leaves
  every other part of the state as it is and opens no dialog.
\<close>

theorem validate_opens_dialog_only_with_selection:
  "reachedByHandlers p \<Longrightarrow> \<not> wizard_customButton_hidden p \<Longrightarrow>
   (\<exists>logins.
      loginsForMigration (loginMigrationModel (migrationStateModel p)) = Some logins
      \<and> validateLoginPreMigration p =
          (if logins = []
           then p\<lparr>wizard_message :=
                    \<lparr>msgText = SELECT_LOGIN_TO_CONTINUE, msgLevel = Error,
                     msgDescription = None\<rparr>\<rparr>
           else p\<lparr>log := log p @
                    [OpenDialog VALIDATION_DIALOG_TITLE
                       (validateLoginMigration (migrationStateModel p))]\<rparr>)
      \<and> (log (validateLoginPreMigration p) \<noteq> log p \<longrightarrow> logins \<noteq> [])
      \<and> (logins = [] \<longrightarrow> log (validateLoginPreMigration p) = log p))"
proof -
  assume reached: "reachedByHandlers p" and visible: "\<not> wizard_customButton_hidden p"
  from visible_page_has_selection [OF reached] visible
  obtain logins where
    assigned: "loginsForMigration (loginMigrationModel (migrationStateModel p)) = Some logins"
    by auto
  have "validateLoginPreMigration p =
          (if logins = []
           then p\<lparr>wizard_message :=
                    \<lparr>msgText = SELECT_LOGIN_TO_CONTINUE, msgLevel = Error,
                     msgDescription = None\<rparr>\<rparr>
           else p\<lparr>log := log p @
                    [OpenDialog VALIDATION_DIALOG_TITLE
                       (validateLoginMigration (migrationStateModel p))]\<rparr>)"
    using assigned by (simp add: validateLoginPreMigration_def)
  moreover from this have "logins = [] \<longrightarrow> log (validateLoginPreMigration p) = log p"
    by simp
  ultimately show ?thesis using assigned by auto
qed

theorem validate_opens_dialog_only_with_selection_witness:
  "reachedByHandlers (onPageEnter exampleCollaborators examplePage)
   \<and> \<not> wizard_customButton_hidden (onPageEnter exampleCollaborators examplePage)
   \<and> loginsForMigration (loginMigrationModel (migrationStateModel
        (onPageEnter exampleCollaborators examplePage))) = Some []
   \<and> wizard_message (validateLoginPreMigration (onPageEnter exampleCollaborators examplePage))
       = \<lparr>msgText = SELECT_LOGIN_TO_CONTINUE, msgLevel = Error, msgDescription = None\<rparr>
   \<and> log (validateLoginPreMigration (onPageEnter exampleCollaborators examplePage))
       = log (onPageEnter exampleCollaborators examplePage)
   \<and> reachedByHandlers exampleShownPage
   \<and> \<not> wizard_customButton_hidden exampleShownPage
   \<and> loginsForMigration (loginMigrationModel (migrationStateModel exampleShownPage))
       = Some [\<lparr>loginName = ''sa'', loginType = ''sql_login'',
                defaultDatabaseName = ''master'', status = None\<rparr>]
   \<and> log (validateLoginPreMigration exampleShownPage)
       = log exampleShownPage @ [OpenDialog VALIDATION_DIALOG_TITLE []]"
proof -
  have reachedEmpty: "reachedByHandlers (onPageEnter exampleCollaborators examplePage)"
    by (rule reachedByHandlers.entered)
  have visibleEmpty:
    "\<not> wizard_customButton_hidden (onPageEnter exampleCollaborators examplePage)"
    by code_simp
  have empty:
    "loginsForMigration (loginMigrationModel (migrationStateModel
       (onPageEnter exampleCollaborators examplePage))) = Some []"
    by code_simp
  have reachedShown: "reachedByHandlers exampleShownPage"
    unfolding exampleShownPage_def
    by (intro reachedByHandlers.validationResult reachedByHandlers.rowSelected
        reachedByHandlers.entered)
  have visibleShown: "\<not> wizard_customButton_hidden exampleShownPage"
    by code_simp
  have selected:
    "loginsForMigration (loginMigrationModel (migrationStateModel exampleShownPage))
     = Some [\<lparr>loginName = ''sa'', loginType = ''sql_login'',
              defaultDatabaseName = ''master'', status = None\<rparr>]"
    by code_simp
  have results: "validateLoginMigration (migrationStateModel exampleShownPage) = []"
    by code_simp
  from validate_opens_dialog_only_with_selection [OF reachedEmpty visibleEmpty]
       validate_opens_dialog_only_with_selection [OF reachedShown visibleShown]
       reachedEmpty visibleEmpty empty reachedShown visibleShown selected results
  show ?thesis by simp
qed

end
